theory Spec2Isabelle
  imports Complex_Main "HOL-Library.Multiset"
begin

section \<open>Data model\<close>

text \<open>
  Timestamps are the epoch-millisecond values of the JavaScript \<open>Date\<close> objects the
  handlers compare (\<open>new Date(s)\<close> of a request string, or the \<open>Date\<close> read from a
  \<open>timestamp\<close> column). The handlers compare \<open>Date\<close> objects with the greater-than
  operator, which compares these values. A request string that does not parse to a date
  gives an invalid \<open>Date\<close>, which is neither greater nor less than any other; requests with
  such strings are outside the model.

  A \<open>version\<close> of a request is \<open>z.number()\<close>: any JavaScript number. It is the rational
  it denotes; comparison and \<open>Math.max\<close> are exact on these. A stored \<open>version\<close> is the
  value of an \<open>integer\<close> column: an integer of 32 bits. The records below share their
  fields and leave the type of \<open>version\<close> open.
\<close>

type_synonym timestamp = int

text \<open>\<open>NoteChange\<close> (types/index.ts): the unit carried in a sync batch.\<close>

record 'v note_change =
  note_id :: string
  title :: string
  content :: string
  updatedAt :: timestamp
  deleted :: bool
  version :: 'v

text \<open>The frontend's \<open>Note\<close>: a change snapshot plus \<open>createdAt\<close>.\<close>

record 'v client_note = "'v note_change" +
  createdAt :: timestamp

text \<open>
  The backend's \<open>Note\<close>: the same plus \<open>userId\<close>. With an integer version it is a row of
  the \<open>notes\<close> table; with a JavaScript number it is the \<open>values\<close> object of an insert.
\<close>

record 'v stored_note = "'v client_note" +
  userId :: string

type_synonym note_row = "int stored_note"

record conflict_data =
  conflict_id :: string
  server :: note_row
  client :: "rat note_change"

record sync_request =
  clientId :: string
  lastSyncAt :: "timestamp option"
  changes :: "rat note_change list"

record sync_response =
  applied :: "string list"
  conflicts :: "conflict_data list"
  serverChanges :: "note_row list"
  serverTime :: timestamp

section \<open>What the database and the runtime decide\<close>

text \<open>
  The handlers rely on behaviour that is not code of this repository. It is a parameter of
  every handler below; the theorems hold for every value of it, and the one that needs a
  property of the sum says so in its hypotheses:
  \<^item> \<open>uuid_in s\<close>: what a \<open>uuid\<close> column makes of the text \<open>s\<close>: the canonical text of the
    uuid, or \<open>None\<close> when \<open>s\<close> is not a uuid and the statement raises. Rows hold canonical
    texts, and a comparison with a request's id compares with its canonical text.
  \<^item> \<open>text_ok s\<close>: a \<open>text\<close> column accepts the string \<open>s\<close>.
  \<^item> \<open>timestamp_ok t\<close>: a \<open>timestamp\<close> column accepts the \<open>Date\<close> of value \<open>t\<close>.
  \<^item> \<open>add_one x\<close>: the JavaScript sum \<open>x + 1\<close> for a number \<open>x\<close> that is not an integer
    (a double, which may be rounded).
\<close>

record platform =
  uuid_in :: "string \<Rightarrow> string option"
  text_ok :: "string \<Rightarrow> bool"
  timestamp_ok :: "timestamp \<Rightarrow> bool"
  add_one :: "rat \<Rightarrow> rat"

text \<open>The range of an \<open>integer\<close> column.\<close>

definition int32 :: "int \<Rightarrow> bool" where
  "int32 v \<longleftrightarrow> - 2147483648 \<le> v \<and> v \<le> 2147483647"

text \<open>
  What an \<open>integer\<close> column stores for the JavaScript number \<open>x\<close>: \<open>x\<close> itself when it is an
  integer in range; otherwise the statement raises.
\<close>

definition integer_in :: "rat \<Rightarrow> int option" where
  "integer_in x = (if x = of_int \<lfloor>x\<rfloor> \<and> int32 \<lfloor>x\<rfloor> then Some \<lfloor>x\<rfloor> else None)"

text \<open>
  The JavaScript sum \<open>x + 1\<close>. It is exact for every integer below \<open>2^53\<close>; beyond that the
  double sum is an integer outside the column's range, as the exact one is.
\<close>

definition plus_one :: "platform \<Rightarrow> rat \<Rightarrow> rat" where
  "plus_one pf x = (if x = of_int \<lfloor>x\<rfloor> then x + 1 else add_one pf x)"

section \<open>The notes table\<close>

text \<open>
  The table is the list of its rows. The schema declares \<open>id\<close> the primary key, so an
  insert of an id that is already stored (for any owner) raises, and a table reached from
  an empty one never holds two rows of one id (\<open>pk_ok\<close>). A statement whose values a
  column does not accept raises a data exception before it touches the table. The caller's
  id is the \<open>userId\<close> of the verified token, the id of a stored user; the foreign key of
  \<open>user_id\<close> is not modelled: no handler deletes a user.
\<close>

type_synonym notes_table = "note_row list"

datatype storage_error = DataException | UniqueViolation

definition pk_ok :: "notes_table \<Rightarrow> bool" where
  "pk_ok db = distinct (map note_id db)"

text \<open>
  \<open>select().from(notes).where(and(eq(id, i), eq(userId, u))).limit(1)\<close>, for the
  canonical text \<open>i\<close> of the id.
\<close>

definition select_note :: "string \<Rightarrow> string \<Rightarrow> notes_table \<Rightarrow> note_row option" where
  "select_note i u db = find (\<lambda>n. note_id n = i \<and> userId n = u) db"

text \<open>\<open>select().from(notes).where(eq(id, i)).limit(1)\<close>\<close>

definition note_by_id :: "string \<Rightarrow> notes_table \<Rightarrow> note_row option" where
  "note_by_id i db = find (\<lambda>n. note_id n = i) db"

text \<open>
  \<open>insert(notes).values(n)\<close>, for a \<open>values\<close> object whose id is canonical: the columns
  check their values, then the primary key is checked.
\<close>

definition insert_note ::
  "platform \<Rightarrow> rat stored_note \<Rightarrow> notes_table \<Rightarrow> storage_error + notes_table" where
  "insert_note pf n db =
     (if \<not> (text_ok pf (title n) \<and> text_ok pf (content n)
             \<and> timestamp_ok pf (updatedAt n) \<and> timestamp_ok pf (createdAt n))
      then Inl DataException
      else
        (case integer_in (version n) of
           None \<Rightarrow> Inl DataException
         | Some v \<Rightarrow>
             if note_id n \<in> set (map note_id db) then Inl UniqueViolation
             else Inr (db @ [\<lparr>note_id = note_id n, title = title n, content = content n,
                               updatedAt = updatedAt n, deleted = deleted n, version = v,
                               createdAt = createdAt n, userId = userId n\<rparr>])))"

text \<open>
  \<open>update(notes).set(f).where(eq(id, i))\<close>, once the columns have accepted the values:
  every row of that id is rewritten.
\<close>

definition update_notes ::
  "string \<Rightarrow> (note_row \<Rightarrow> note_row) \<Rightarrow> notes_table \<Rightarrow> notes_table" where
  "update_notes i f db = map (\<lambda>n. if note_id n = i then f n else n) db"

section \<open>POST /sync\<close>

text \<open>
  The state of the loop over \<open>changes\<close>: the table, \<open>applied\<close> and \<open>conflicts\<close>.
  \<open>process_change\<close> is the body of the \<open>try\<close> block for one change; \<open>now\<close> is what
  \<open>new Date()\<close> returns while that change is processed. A raise is \<open>Inl\<close>: of the lookup
  when the id is not a uuid, of the insert, or of an update whose values a column does not
  accept. The statement that raises changes nothing, and the \<open>push\<close> after it is not
  reached.
\<close>

type_synonym sync_state = "notes_table \<times> string list \<times> conflict_data list"

fun process_change ::
  "platform \<Rightarrow> string \<Rightarrow> timestamp \<Rightarrow> sync_state \<Rightarrow> rat note_change
     \<Rightarrow> storage_error + sync_state" where
  "process_change pf uid now (db, ap, cf) change =
     (case uuid_in pf (note_id change) of
        None \<Rightarrow> Inl DataException
      | Some i \<Rightarrow>
     (case select_note i uid db of
        None \<Rightarrow>
          (case insert_note pf
                  \<lparr>note_id = i, title = title change, content = content change,
                   updatedAt = updatedAt change, deleted = deleted change,
                   version = version change, createdAt = updatedAt change, userId = uid\<rparr> db of
             Inl e \<Rightarrow> Inl e
           | Inr db' \<Rightarrow> Inr (db', ap @ [note_id change], cf))
      | Some serverNote \<Rightarrow>
          if updatedAt change > updatedAt serverNote then
            (if \<not> (text_ok pf (title change) \<and> text_ok pf (content change)
                    \<and> timestamp_ok pf (updatedAt change))
             then Inl DataException
             else
               (case integer_in
                       (plus_one pf (max (of_int (version serverNote)) (version change))) of
                  None \<Rightarrow> Inl DataException
                | Some v \<Rightarrow>
                    Inr (update_notes i
                           (\<lambda>n. n\<lparr>title := title change, content := content change,
                                  deleted := deleted change, version := v,
                                  updatedAt := updatedAt change\<rparr>) db,
                         ap @ [note_id change], cf)))
          else if updatedAt serverNote > updatedAt change then
            Inr (db, ap,
                 cf @ [\<lparr>conflict_id = note_id change, server = serverNote, client = change\<rparr>])
          else if version change > of_int (version serverNote) then
            (if \<not> (text_ok pf (title change) \<and> text_ok pf (content change)
                    \<and> timestamp_ok pf now)
             then Inl DataException
             else
               (case integer_in (plus_one pf (version change)) of
                  None \<Rightarrow> Inl DataException
                | Some v \<Rightarrow>
                    Inr (update_notes i
                           (\<lambda>n. n\<lparr>title := title change, content := content change,
                                  deleted := deleted change, version := v,
                                  updatedAt := now\<rparr>) db,
                         ap @ [note_id change], cf)))
          else if of_int (version serverNote) > version change then
            Inr (db, ap,
                 cf @ [\<lparr>conflict_id = note_id change, server = serverNote, client = change\<rparr>])
          else
            Inr (db, ap @ [note_id change], cf)))"

text \<open>
  The loop. \<open>clock\<close> gives the readings of the server's clock during one request:
  \<open>clock 0\<close> is the reading taken for \<open>serverTime\<close> before the loop, \<open>clock (Suc k)\<close> what
  \<open>new Date()\<close> returns while the change at position \<open>k\<close> is processed. The \<open>catch\<close> logs
  and goes on with the next change, with the state as it was before the change.
\<close>

fun sync_changes ::
  "platform \<Rightarrow> string \<Rightarrow> (nat \<Rightarrow> timestamp) \<Rightarrow> nat \<Rightarrow> sync_state \<Rightarrow> rat note_change list
     \<Rightarrow> sync_state" where
  "sync_changes pf uid clock k st [] = st"
| "sync_changes pf uid clock k st (change # rest) =
     (case process_change pf uid (clock (Suc k)) st change of
        Inl e \<Rightarrow> sync_changes pf uid clock (Suc k) st rest
      | Inr st' \<Rightarrow> sync_changes pf uid clock (Suc k) st' rest)"

text \<open>
  The handler, for a body that passed \<open>syncSchema\<close>. \<open>serverTime\<close> is read first
  (\<open>clock 0\<close>); \<open>orderBy(notes.updatedAt)\<close> is an ascending sort (rows of equal
  \<open>updatedAt\<close> keep their table order here; SQL leaves their order open). The result is the
  table after the loop and the response the handler builds when its last query does not
  raise.
\<close>

definition sync ::
  "platform \<Rightarrow> string \<Rightarrow> (nat \<Rightarrow> timestamp) \<Rightarrow> sync_request \<Rightarrow> notes_table
     \<Rightarrow> notes_table \<times> sync_response" where
  "sync pf uid clock req db =
     (case sync_changes pf uid clock 0 (db, [], []) (changes req) of
        (db', ap, cf) \<Rightarrow>
          (db',
           \<lparr>applied = ap, conflicts = cf,
            serverChanges =
              (case lastSyncAt req of
                 None \<Rightarrow> []
               | Some lastSyncDate \<Rightarrow>
                   sort_key updatedAt
                     (filter (\<lambda>n. userId n = uid \<and> updatedAt n > lastSyncDate) db')),
            serverTime = clock 0\<rparr>))"

text \<open>
  What the handler answers. The query for the server changes is outside the \<open>try\<close> of the
  loop: when the \<open>timestamp\<close> column does not accept \<open>lastSyncDate\<close> it raises, the outer
  \<open>catch\<close> rethrows, and the request is answered with 500 (\<open>InternalError\<close>) after the
  loop has written. For a body that passed \<open>syncSchema\<close> nothing else outside the loop
  raises.
\<close>

datatype http_error = ValidationError | NotFound | InternalError

definition sync_reply ::
  "platform \<Rightarrow> string \<Rightarrow> (nat \<Rightarrow> timestamp) \<Rightarrow> sync_request \<Rightarrow> notes_table
     \<Rightarrow> notes_table \<times> (http_error + sync_response)" where
  "sync_reply pf uid clock req db =
     (case sync pf uid clock req db of
        (db', response) \<Rightarrow>
          (case lastSyncAt req of
             None \<Rightarrow> (db', Inr response)
           | Some lastSyncDate \<Rightarrow>
               if timestamp_ok pf lastSyncDate then (db', Inr response)
               else (db', Inl InternalError)))"

section \<open>POST /sync/resolve\<close>

datatype resolution = Server | Client | Manual

record manual_data =
  manualTitle :: string
  manualContent :: string

text \<open>
  The handler looks the note up for the caller (404 when there is none), has one branch for
  \<open>'server'\<close> and one for \<open>'manual'\<close> with \<open>manualData\<close> present, reads the row back by id
  and sends it. The request body carries no client fields. A statement that raises (an id
  that is not a uuid, a value a column does not accept) is rethrown and answered with 500
  (\<open>InternalError\<close>), as \<open>updatedNote!\<close> on an empty result would be.
\<close>

definition resolve ::
  "platform \<Rightarrow> string \<Rightarrow> timestamp \<Rightarrow> string \<Rightarrow> resolution \<Rightarrow> manual_data option
     \<Rightarrow> notes_table \<Rightarrow> http_error + notes_table \<times> note_row" where
  "resolve pf uid now noteId res manualData db =
     (case uuid_in pf noteId of
        None \<Rightarrow> Inl InternalError
      | Some i \<Rightarrow>
     (case select_note i uid db of
        None \<Rightarrow> Inl NotFound
      | Some n \<Rightarrow>
          (case
             (if res = Server then
                (if timestamp_ok pf now \<and> int32 (version n + 1)
                 then Inr (update_notes i
                             (\<lambda>r. r\<lparr>version := version n + 1, updatedAt := now\<rparr>) db)
                 else Inl InternalError)
              else if res = Manual \<and> manualData \<noteq> None then
                (case manualData of
                   Some m \<Rightarrow>
                     if text_ok pf (manualTitle m) \<and> text_ok pf (manualContent m)
                        \<and> timestamp_ok pf now \<and> int32 (version n + 1)
                     then Inr (update_notes i
                                 (\<lambda>r. r\<lparr>title := manualTitle m, content := manualContent m,
                                        version := version n + 1, updatedAt := now\<rparr>) db)
                     else Inl InternalError
                 | None \<Rightarrow> Inr db)
              else Inr db) of
             Inl e \<Rightarrow> Inl e
           | Inr db' \<Rightarrow>
               (case note_by_id i db' of
                  None \<Rightarrow> Inl InternalError
                | Some updatedNote \<Rightarrow> Inr (db', updatedNote)))))"

section \<open>PUT /notes/:id and DELETE /notes/:id\<close>

text \<open>
  \<open>updateNoteSchema\<close>: both fields optional, a title of 1 to 200 characters, a content of
  at most 50000; a body that fails is answered with 400. An absent field is not written.
\<close>

record update_data =
  newTitle :: "string option"
  newContent :: "string option"

definition updateNoteSchema :: "update_data \<Rightarrow> bool" where
  "updateNoteSchema body \<longleftrightarrow>
     (case newTitle body of None \<Rightarrow> True | Some t \<Rightarrow> 1 \<le> length t \<and> length t \<le> 200)
     \<and> (case newContent body of None \<Rightarrow> True | Some c \<Rightarrow> length c \<le> 50000)"

text \<open>The lookup of both handlers: id, owner and \<open>deleted = false\<close>.\<close>

definition select_live :: "string \<Rightarrow> string \<Rightarrow> notes_table \<Rightarrow> note_row option" where
  "select_live i u db = find (\<lambda>n. note_id n = i \<and> userId n = u \<and> deleted n = False) db"

definition put_note ::
  "platform \<Rightarrow> string \<Rightarrow> timestamp \<Rightarrow> string \<Rightarrow> update_data \<Rightarrow> notes_table
     \<Rightarrow> http_error + notes_table \<times> note_row" where
  "put_note pf uid now noteId body db =
     (if \<not> updateNoteSchema body then Inl ValidationError
      else
     (case uuid_in pf noteId of
        None \<Rightarrow> Inl InternalError
      | Some i \<Rightarrow>
     (case select_live i uid db of
        None \<Rightarrow> Inl NotFound
      | Some existingNote \<Rightarrow>
          if \<not> ((case newTitle body of None \<Rightarrow> True | Some t \<Rightarrow> text_ok pf t)
                 \<and> (case newContent body of None \<Rightarrow> True | Some c \<Rightarrow> text_ok pf c)
                 \<and> timestamp_ok pf now \<and> int32 (version existingNote + 1))
          then Inl InternalError
          else
          (let db' =
             update_notes i
               (\<lambda>r. r\<lparr>title := (case newTitle body of None \<Rightarrow> title r | Some t \<Rightarrow> t),
                      content := (case newContent body of None \<Rightarrow> content r | Some c \<Rightarrow> c),
                      version := version existingNote + 1, updatedAt := now\<rparr>) db
           in case note_by_id i db' of
                None \<Rightarrow> Inl InternalError
              | Some updatedNote \<Rightarrow> Inr (db', updatedNote)))))"

definition delete_note ::
  "platform \<Rightarrow> string \<Rightarrow> timestamp \<Rightarrow> string \<Rightarrow> notes_table \<Rightarrow> http_error + notes_table" where
  "delete_note pf uid now noteId db =
     (case uuid_in pf noteId of
        None \<Rightarrow> Inl InternalError
      | Some i \<Rightarrow>
     (case select_live i uid db of
        None \<Rightarrow> Inl NotFound
      | Some existingNote \<Rightarrow>
          if \<not> (timestamp_ok pf now \<and> int32 (version existingNote + 1))
          then Inl InternalError
          else
            Inr (update_notes i
                   (\<lambda>r. r\<lparr>deleted := True, version := version existingNote + 1,
                          updatedAt := now\<rparr>) db)))"

section \<open>The client: the sync queue and \<open>syncNow\<close>\<close>

datatype operation = Create | Update | Delete

record sync_queue_item =
  noteId :: string
  operation :: operation
  data :: "rat client_note"
  timestamp :: timestamp

text \<open>
  The replica's IndexedDB stores (\<open>notes\<close> keyed by id, here \<open>localNotes\<close>;
  \<open>syncQueue\<close> in key order; the \<open>meta\<close> entries \<open>lastSyncAt\<close> and \<open>clientId\<close>) and the
  hook's \<open>conflicts\<close> state.
\<close>

record client_state =
  localNotes :: "string \<Rightarrow> rat client_note option"
  syncQueue :: "sync_queue_item list"
  metaLastSyncAt :: "timestamp option"
  metaClientId :: "string option"
  conflictsState :: "conflict_data list"

datatype transport_error = RequestFailed

definition as_client_note :: "note_row \<Rightarrow> rat client_note" where
  "as_client_note n =
     \<lparr>note_id = note_id n, title = title n, content = content n, updatedAt = updatedAt n,
      deleted = deleted n, version = of_int (version n), createdAt = createdAt n\<rparr>"

fun applyServerChanges ::
  "note_row list \<Rightarrow> (string \<Rightarrow> rat client_note option)
     \<Rightarrow> (string \<Rightarrow> rat client_note option)" where
  "applyServerChanges [] store = store"
| "applyServerChanges (n # ns) store =
     applyServerChanges ns
       (case store (note_id n) of
          None \<Rightarrow> store(note_id n \<mapsto> as_client_note n)
        | Some existing \<Rightarrow>
            if updatedAt n > updatedAt existing then store(note_id n \<mapsto> as_client_note n)
            else store)"

text \<open>\<open>db.clear('syncQueue')\<close>\<close>

definition clearSyncQueue :: "sync_queue_item list \<Rightarrow> sync_queue_item list" where
  "clearSyncQueue q = []"

text \<open>The change sent for a queue item: the fields of \<open>item.data\<close>.\<close>

definition change_of :: "sync_queue_item \<Rightarrow> rat note_change" where
  "change_of item =
     \<lparr>note_id = note_id (data item), title = title (data item),
      content = content (data item), updatedAt = updatedAt (data item),
      deleted = deleted (data item), version = version (data item)\<rparr>"

text \<open>
  \<open>syncNow\<close>. \<open>api\<close> is the transport (\<open>api.sync\<close>, which raises on a failed request),
  \<open>uuid\<close> what \<open>crypto.randomUUID()\<close> returns when no client id is stored yet. A call
  while a round is running or while offline returns at once; a raise of the transport is
  caught and leaves the stores as they were.
\<close>

definition syncNow ::
  "(sync_request \<Rightarrow> transport_error + sync_response) \<Rightarrow> string \<Rightarrow> bool \<Rightarrow> bool
     \<Rightarrow> client_state \<Rightarrow> client_state" where
  "syncNow api uuid isSyncing onLine st =
     (if isSyncing then st
      else if \<not> onLine then st
      else
        (let cid = (case metaClientId st of None \<Rightarrow> uuid | Some c \<Rightarrow> c);
             st0 = st\<lparr>metaClientId := Some cid\<rparr>;
             queueItems = syncQueue st0
         in case api \<lparr>clientId = cid, lastSyncAt = metaLastSyncAt st0,
                      changes = map change_of queueItems\<rparr> of
              Inl e \<Rightarrow> st0
            | Inr response \<Rightarrow>
                (let st1 = (if length (serverChanges response) > 0
                            then st0\<lparr>localNotes :=
                                      applyServerChanges (serverChanges response)
                                        (localNotes st0)\<rparr>
                            else st0);
                     st2 = (if length (conflicts response) > 0
                            then st1\<lparr>conflictsState := conflicts response\<rparr>
                            else st1);
                     st3 = (if length (applied response) > 0
                            then st2\<lparr>syncQueue := clearSyncQueue (syncQueue st2)\<rparr>
                            else st2)
                 in st3\<lparr>metaLastSyncAt := Some (serverTime response)\<rparr>)))"


section \<open>Predicates on the table used in the statements\<close>

text \<open>
  \<open>accepted pf c\<close>: the columns accept the title, the content and the \<open>updatedAt\<close> of the
  change \<open>c\<close>.
\<close>

definition accepted :: "platform \<Rightarrow> rat note_change \<Rightarrow> bool" where
  "accepted pf c \<longleftrightarrow>
     text_ok pf (title c) \<and> text_ok pf (content c) \<and> timestamp_ok pf (updatedAt c)"

section \<open>Example tables, changes and queues\<close>

text \<open>
  The inputs of the concrete instances below: five note ids and two user ids (uuids in
  canonical text), a platform that accepts these ids, every text, the timestamps of the
  years 1970 to 9999 and adds one exactly, a stored note of user \<open>ex_u1\<close>, a note of
  another user, changes that are newer, older and tied with the stored note, a change that
  collides with the other user's id, a change for a new note, two writes of one note, a
  replica's queue, a server clock that stands at 99, and a transport that reaches the
  server.
\<close>

definition ex_n1 :: string where
  "ex_n1 = ''00000000-0000-4000-8000-000000000001''"

definition ex_n2 :: string where
  "ex_n2 = ''00000000-0000-4000-8000-000000000002''"

definition ex_n3 :: string where
  "ex_n3 = ''00000000-0000-4000-8000-000000000003''"

definition ex_n4 :: string where
  "ex_n4 = ''00000000-0000-4000-8000-000000000004''"

definition ex_n5 :: string where
  "ex_n5 = ''00000000-0000-4000-8000-000000000005''"

definition ex_u1 :: string where
  "ex_u1 = ''00000000-0000-4000-8000-0000000000a1''"

definition ex_u2 :: string where
  "ex_u2 = ''00000000-0000-4000-8000-0000000000a2''"

definition ex_pf :: platform where
  "ex_pf =
     \<lparr>uuid_in = (\<lambda>s. if s \<in> set [ex_n1, ex_n2, ex_n3, ex_n4, ex_n5] then Some s else None),
      text_ok = (\<lambda>s. True),
      timestamp_ok = (\<lambda>t. 0 \<le> t \<and> t < 253402300800000),
      add_one = (\<lambda>x. x + 1)\<rparr>"

definition ex_row :: note_row where
  "ex_row =
     \<lparr>note_id = ex_n1, title = ''old'', content = ''x'', updatedAt = 50,
      deleted = False, version = 3, createdAt = 5, userId = ex_u1\<rparr>"

definition ex_other :: note_row where
  "ex_other =
     \<lparr>note_id = ex_n2, title = ''theirs'', content = ''z'', updatedAt = 30,
      deleted = False, version = 2, createdAt = 1, userId = ex_u2\<rparr>"

definition ex_early :: note_row where
  "ex_early =
     \<lparr>note_id = ex_n4, title = ''a'', content = ''x'', updatedAt = 10,
      deleted = False, version = 1, createdAt = 1, userId = ex_u1\<rparr>"

definition ex_mid :: note_row where
  "ex_mid =
     \<lparr>note_id = ex_n5, title = ''b'', content = ''x'', updatedAt = 25,
      deleted = True, version = 4, createdAt = 1, userId = ex_u1\<rparr>"

definition ex_newer :: "rat note_change" where
  "ex_newer =
     \<lparr>note_id = ex_n1, title = ''new'', content = ''y'', updatedAt = 60,
      deleted = True, version = 7\<rparr>"

definition ex_older :: "rat note_change" where
  "ex_older =
     \<lparr>note_id = ex_n1, title = ''cli'', content = ''y'', updatedAt = 40,
      deleted = False, version = 5\<rparr>"

definition ex_tie_higher :: "rat note_change" where
  "ex_tie_higher =
     \<lparr>note_id = ex_n1, title = ''cli'', content = ''y'', updatedAt = 50,
      deleted = False, version = 4\<rparr>"

definition ex_tie_lower :: "rat note_change" where
  "ex_tie_lower =
     \<lparr>note_id = ex_n1, title = ''cli'', content = ''y'', updatedAt = 50,
      deleted = False, version = 1\<rparr>"

definition ex_tie_equal :: "rat note_change" where
  "ex_tie_equal =
     \<lparr>note_id = ex_n1, title = ''cli'', content = ''y'', updatedAt = 50,
      deleted = False, version = 3\<rparr>"

definition ex_grab :: "rat note_change" where
  "ex_grab =
     \<lparr>note_id = ex_n2, title = ''grab'', content = ''y'', updatedAt = 40,
      deleted = True, version = 9\<rparr>"

definition ex_fresh :: "rat note_change" where
  "ex_fresh =
     \<lparr>note_id = ex_n3, title = ''fresh'', content = ''y'', updatedAt = 40,
      deleted = False, version = 1\<rparr>"

definition ex_write_a :: "rat note_change" where
  "ex_write_a =
     \<lparr>note_id = ex_n1, title = ''a'', content = ''p'', updatedAt = 60,
      deleted = False, version = 1\<rparr>"

definition ex_write_b :: "rat note_change" where
  "ex_write_b =
     \<lparr>note_id = ex_n1, title = ''b'', content = ''q'', updatedAt = 70,
      deleted = False, version = 1\<rparr>"

definition ex_item_fresh :: sync_queue_item where
  "ex_item_fresh =
     \<lparr>noteId = ex_n3, operation = Create,
      data = \<lparr>note_id = ex_n3, title = ''fresh'', content = ''y'', updatedAt = 40,
               deleted = False, version = 1, createdAt = 40\<rparr>,
      timestamp = 41\<rparr>"

definition ex_item_older :: sync_queue_item where
  "ex_item_older =
     \<lparr>noteId = ex_n1, operation = Update,
      data = \<lparr>note_id = ex_n1, title = ''cli'', content = ''y'', updatedAt = 40,
               deleted = False, version = 5, createdAt = 5\<rparr>,
      timestamp = 42\<rparr>"

definition ex_client :: client_state where
  "ex_client =
     \<lparr>localNotes = (\<lambda>i. None), syncQueue = [ex_item_fresh, ex_item_older],
      metaLastSyncAt = None, metaClientId = Some ''c1'', conflictsState = []\<rparr>"

definition ex_clock :: "nat \<Rightarrow> timestamp" where
  "ex_clock k = 99"

definition ex_api :: "sync_request \<Rightarrow> transport_error + sync_response" where
  "ex_api req = Inr (snd (sync ex_pf ex_u1 ex_clock req [ex_row]))"


section \<open>Facts of the examples\<close>

lemma ex_ids_differ:
  "ex_n1 \<noteq> ex_n2" "ex_n1 \<noteq> ex_n3" "ex_n1 \<noteq> ex_n4" "ex_n1 \<noteq> ex_n5"
  "ex_n2 \<noteq> ex_n1" "ex_n2 \<noteq> ex_n3" "ex_n3 \<noteq> ex_n1" "ex_n3 \<noteq> ex_n2"
  "ex_n4 \<noteq> ex_n1" "ex_n5 \<noteq> ex_n1" "ex_n4 \<noteq> ex_n5" "ex_n5 \<noteq> ex_n4"
  "ex_n2 \<noteq> ex_n4" "ex_n2 \<noteq> ex_n5" "ex_n4 \<noteq> ex_n2" "ex_n5 \<noteq> ex_n2"
  "ex_u1 \<noteq> ex_u2" "ex_u2 \<noteq> ex_u1"
  by (simp_all add: ex_n1_def ex_n2_def ex_n3_def ex_n4_def ex_n5_def ex_u1_def ex_u2_def)

lemma ex_pf_uuid:
  "uuid_in ex_pf ex_n1 = Some ex_n1" "uuid_in ex_pf ex_n2 = Some ex_n2"
  "uuid_in ex_pf ex_n3 = Some ex_n3" "uuid_in ex_pf ex_n4 = Some ex_n4"
  "uuid_in ex_pf ex_n5 = Some ex_n5" "uuid_in ex_pf ''n1'' = None"
  by (simp_all add: ex_pf_def ex_n1_def ex_n2_def ex_n3_def ex_n4_def ex_n5_def)

lemma ex_pf_accepts:
  "text_ok ex_pf s" "timestamp_ok ex_pf t \<longleftrightarrow> 0 \<le> t \<and> t < 253402300800000"
  "add_one ex_pf x = x + 1"
  by (simp_all add: ex_pf_def)

lemmas ex_facts = ex_ids_differ ex_pf_uuid ex_pf_accepts

section \<open>Numbers and the integer column\<close>

lemma integer_in_of_int: "integer_in (of_int k) = (if int32 k then Some k else None)"
  by (simp add: integer_in_def)

lemma integer_in_Some: "integer_in x = Some k \<longleftrightarrow> x = of_int k \<and> int32 k"
  by (auto simp: integer_in_def)

lemma next_version_of_int:
  "integer_in (plus_one pf (of_int k)) = (if int32 (k + 1) then Some (k + 1) else None)"
  using integer_in_of_int [of "k + 1"] by (simp add: plus_one_def)

lemma max_of_int_rat: "max (of_int a) (of_int b) = (of_int (max a b) :: rat)"
  by (simp add: of_int_max)

section \<open>Lookup and update lemmas\<close>

lemma select_note_SomeD:
  "select_note i u db = Some s \<Longrightarrow> s \<in> set db \<and> note_id s = i \<and> userId s = u"
  unfolding select_note_def by (auto simp: find_Some_iff)

lemma select_note_update:
  assumes "select_note i u db = Some s"
    and "\<And>n. note_id (f n) = note_id n" and "\<And>n. userId (f n) = userId n"
  shows "select_note i u (update_notes i f db) = Some (f s)"
  using assms(1) unfolding select_note_def update_notes_def
  by (induction db) (auto simp: assms(2,3) split: if_splits)

lemma update_notes_ids [simp]:
  "(\<And>n. note_id (f n) = note_id n) \<Longrightarrow> map note_id (update_notes i f db) = map note_id db"
  unfolding update_notes_def by (induction db) auto

lemma pk_ok_same_id:
  "pk_ok db \<Longrightarrow> x \<in> set db \<Longrightarrow> y \<in> set db \<Longrightarrow> note_id x = note_id y \<Longrightarrow> x = y"
  unfolding pk_ok_def by (meson distinct_map inj_on_eq_iff)

lemma update_notes_others:
  assumes "\<And>n. n \<in> set db \<Longrightarrow> note_id n = i \<Longrightarrow> userId n = uid"
    and "\<And>n. userId (f n) = userId n"
  shows "filter (\<lambda>n. userId n \<noteq> uid) (update_notes i f db) = filter (\<lambda>n. userId n \<noteq> uid) db"
  using assms(1) unfolding update_notes_def
  by (induction db) (auto simp: assms(2))

lemma select_note_owner_rows:
  assumes "pk_ok db" and "select_note i uid db = Some s"
  shows "n \<in> set db \<Longrightarrow> note_id n = i \<Longrightarrow> userId n = uid"
  using pk_ok_same_id [OF assms(1)] select_note_SomeD [OF assms(2)] by blast

section \<open>The primary key and the rows of other owners\<close>

lemma process_change_pk:
  assumes "pk_ok db" and "process_change pf uid now (db, ap, cf) c = Inr (db', ap', cf')"
  shows "pk_ok db'"
  using assms
  by (auto simp: pk_ok_def insert_note_def split: option.splits if_splits)

lemma process_change_others:
  assumes "pk_ok db" and "process_change pf uid now (db, ap, cf) c = Inr (db', ap', cf')"
  shows "filter (\<lambda>n. userId n \<noteq> uid) db' = filter (\<lambda>n. userId n \<noteq> uid) db"
proof (cases "uuid_in pf (note_id c)")
  case None
  with assms(2) show ?thesis by simp
next
  case (Some i)
  show ?thesis
  proof (cases "select_note i uid db")
    case None
    with assms(2) Some show ?thesis
      by (auto simp: insert_note_def split: if_splits option.splits)
  next
    case found: (Some s)
    have rows: "\<And>n. n \<in> set db \<Longrightarrow> note_id n = i \<Longrightarrow> userId n = uid"
      using select_note_owner_rows [OF assms(1) found] .
    from assms(2) Some found show ?thesis
      by (auto simp: update_notes_others [OF rows] split: if_splits option.splits)
  qed
qed

lemma sync_changes_pk_others:
  assumes "pk_ok db" and "sync_changes pf uid clock k (db, ap, cf) cs = (db', ap', cf')"
  shows "pk_ok db' \<and> filter (\<lambda>n. userId n \<noteq> uid) db' = filter (\<lambda>n. userId n \<noteq> uid) db"
  using assms
proof (induction cs arbitrary: k db ap cf)
  case Nil
  then show ?case by simp
next
  case (Cons c cs)
  show ?case
  proof (cases "process_change pf uid (clock (Suc k)) (db, ap, cf) c")
    case (Inl e)
    with Cons.prems Cons.IH [of db "Suc k" ap cf] show ?thesis by simp
  next
    case (Inr st1)
    obtain db1 ap1 cf1 where st1: "st1 = (db1, ap1, cf1)" by (cases st1) auto
    from Inr st1 Cons.prems(1) have pk1: "pk_ok db1"
      and oth1: "filter (\<lambda>n. userId n \<noteq> uid) db1 = filter (\<lambda>n. userId n \<noteq> uid) db"
      using process_change_pk process_change_others by blast+
    from Cons.prems(2) Inr st1
    have "sync_changes pf uid clock (Suc k) (db1, ap1, cf1) cs = (db', ap', cf')" by simp
    from Cons.IH [OF pk1 this] oth1 show ?thesis by simp
  qed
qed

lemma collision_raises:
  assumes "uuid_in pf (note_id c) = Some i"
    and "select_note i uid db = None" and "i \<in> set (map note_id db)"
  shows "\<exists>e. process_change pf uid now (db, ap, cf) c = Inl e"
  using assms by (auto simp: insert_note_def split: option.splits)

lemma collision_unique_violation:
  assumes "uuid_in pf (note_id c) = Some i"
    and "select_note i uid db = None" and "i \<in> set (map note_id db)"
    and "accepted pf c" and "integer_in (version c) = Some k"
  shows "process_change pf uid now (db, ap, cf) c = Inl UniqueViolation"
  using assms by (auto simp: insert_note_def accepted_def)

section \<open>The branches of the comparison\<close>




text \<open>
  C6. A change whose note exists and whose \<open>updatedAt\<close> is strictly less than the stored
  one leaves the whole table as it was, adds nothing to \<open>applied\<close>, and appends exactly one
  conflict record, which holds the stored note and the change. (The note exists: the id of
  the change is a uuid and the lookup by it finds the note.)
\<close>

theorem server_newer_conflict:
  assumes "uuid_in pf (note_id c) = Some i"
    and "select_note i uid db = Some s"
    and "updatedAt c < updatedAt s"
  shows "process_change pf uid now (db, ap, cf) c =
           Inr (db, ap, cf @ [\<lparr>conflict_id = note_id c, server = s, client = c\<rparr>])"
  using assms by simp

theorem server_newer_conflict_witness:
  "uuid_in ex_pf (note_id ex_older) = Some ex_n1
   \<and> select_note ex_n1 ex_u1 [ex_row] = Some ex_row
   \<and> updatedAt ex_older < updatedAt ex_row
   \<and> process_change ex_pf ex_u1 99 ([ex_row], [], []) ex_older
       = Inr ([ex_row], [],
              [] @ [\<lparr>conflict_id = note_id ex_older, server = ex_row, client = ex_older\<rparr>])"
proof -
  have u: "uuid_in ex_pf (note_id ex_older) = Some ex_n1"
    by (simp add: ex_older_def ex_facts)
  have sel: "select_note ex_n1 ex_u1 [ex_row] = Some ex_row"
    by (simp add: select_note_def ex_row_def)
  have older: "updatedAt ex_older < updatedAt ex_row"
    by (simp add: ex_row_def ex_older_def)
  from server_newer_conflict [OF u sel older, of 99 "[]" "[]"] u sel older show ?thesis
    by (intro conjI)
qed


text \<open>
  C7, as stated, fails: with equal timestamps and the client's version the largest integer
  of the column, the update would store that integer plus 1; the statement raises, the
  \<open>catch\<close> swallows the error, and nothing is applied.
\<close>

theorem equal_timestamp_overflow_counterexample:
  "select_note ex_n1 ex_u1 [ex_row] = Some ex_row
   \<and> updatedAt (ex_tie_higher\<lparr>version := 2147483647\<rparr>) = updatedAt ex_row
   \<and> of_int (version ex_row) < version (ex_tie_higher\<lparr>version := 2147483647\<rparr>)
   \<and> process_change ex_pf ex_u1 99 ([ex_row], [], []) (ex_tie_higher\<lparr>version := 2147483647\<rparr>)
       = Inl DataException"
  by (simp add: select_note_def integer_in_def plus_one_def int32_def ex_row_def
        ex_tie_higher_def ex_facts)

text \<open>
  C7, amended. A change whose id is a uuid and whose note exists with the same
  \<open>updatedAt\<close>. When the client's version is an integer \<open>k\<close> above the server's, the
  columns accept title and content and the server's clock, and \<open>k + 1\<close> is in the range
  of the version column, the change is applied with version \<open>k + 1\<close> and \<open>updatedAt\<close> the
  server's clock; when \<open>k + 1\<close> is outside the range, the update raises and nothing is
  applied. When the server's version is higher, a conflict is recorded and nothing is
  written; when the versions are equal, the id is appended to \<open>applied\<close> and nothing is
  written.
\<close>

theorem equal_timestamp_tiebreak:
  assumes "uuid_in pf (note_id c) = Some i"
    and "select_note i uid db = Some s"
    and "updatedAt c = updatedAt s"
  shows "(\<forall>k. version c = of_int k \<and> version s < k \<and> int32 (k + 1)
               \<and> text_ok pf (title c) \<and> text_ok pf (content c) \<and> timestamp_ok pf now \<longrightarrow>
            (\<exists>db'. process_change pf uid now (db, ap, cf) c = Inr (db', ap @ [note_id c], cf)
               \<and> select_note i uid db' =
                   Some (s\<lparr>title := title c, content := content c, deleted := deleted c,
                           version := k + 1, updatedAt := now\<rparr>)))
       \<and> (\<forall>k. version c = of_int k \<and> version s < k \<and> \<not> int32 (k + 1) \<longrightarrow>
            process_change pf uid now (db, ap, cf) c = Inl DataException)
       \<and> (version c < of_int (version s) \<longrightarrow>
            process_change pf uid now (db, ap, cf) c =
              Inr (db, ap, cf @ [\<lparr>conflict_id = note_id c, server = s, client = c\<rparr>]))
       \<and> (version c = of_int (version s) \<longrightarrow>
            process_change pf uid now (db, ap, cf) c = Inr (db, ap @ [note_id c], cf))"
  using assms
  by (auto simp: next_version_of_int select_note_update)

theorem equal_timestamp_tiebreak_witness:
  "uuid_in ex_pf ex_n1 = Some ex_n1
   \<and> select_note ex_n1 ex_u1 [ex_row] = Some ex_row
   \<and> updatedAt ex_tie_higher = updatedAt ex_row
   \<and> version ex_tie_higher = of_int 4 \<and> version ex_row < 4 \<and> int32 (4 + 1)
   \<and> timestamp_ok ex_pf 99
   \<and> (\<exists>db'. process_change ex_pf ex_u1 99 ([ex_row], [], []) ex_tie_higher
                = Inr (db', [ex_n1], [])
          \<and> select_note ex_n1 ex_u1 db' =
              Some (ex_row\<lparr>title := ''cli'', content := ''y'', deleted := False,
                            version := 5, updatedAt := 99\<rparr>))
   \<and> updatedAt ex_tie_lower = updatedAt ex_row
   \<and> version ex_tie_lower < of_int (version ex_row)
   \<and> process_change ex_pf ex_u1 99 ([ex_row], [], []) ex_tie_lower
       = Inr ([ex_row], [],
              [\<lparr>conflict_id = ex_n1, server = ex_row, client = ex_tie_lower\<rparr>])
   \<and> updatedAt ex_tie_equal = updatedAt ex_row
   \<and> version ex_tie_equal = of_int (version ex_row)
   \<and> process_change ex_pf ex_u1 99 ([ex_row], [], []) ex_tie_equal = Inr ([ex_row], [ex_n1], [])
   \<and> updatedAt (ex_tie_higher\<lparr>version := 2147483647\<rparr>) = updatedAt ex_row
   \<and> version (ex_tie_higher\<lparr>version := 2147483647\<rparr>) = of_int 2147483647
   \<and> version ex_row < 2147483647 \<and> \<not> int32 (2147483647 + 1)
   \<and> process_change ex_pf ex_u1 99 ([ex_row], [], [])
         (ex_tie_higher\<lparr>version := 2147483647\<rparr>)
       = Inl DataException"
proof -
  have u: "uuid_in ex_pf ex_n1 = Some ex_n1"
    by (simp add: ex_facts)
  have sel: "select_note ex_n1 ex_u1 [ex_row] = Some ex_row"
    by (simp add: select_note_def ex_row_def)
  have h: "uuid_in ex_pf (note_id ex_tie_higher) = Some ex_n1"
      "updatedAt ex_tie_higher = updatedAt ex_row"
      "version ex_tie_higher = of_int 4" "version ex_row < 4" "int32 (4 + 1)"
      "text_ok ex_pf (title ex_tie_higher)" "text_ok ex_pf (content ex_tie_higher)"
      "timestamp_ok ex_pf 99"
    by (simp_all add: ex_row_def ex_tie_higher_def int32_def ex_facts)
  have l: "uuid_in ex_pf (note_id ex_tie_lower) = Some ex_n1"
      "updatedAt ex_tie_lower = updatedAt ex_row"
      "version ex_tie_lower < of_int (version ex_row)"
    by (simp_all add: ex_row_def ex_tie_lower_def ex_facts)
  have e: "uuid_in ex_pf (note_id ex_tie_equal) = Some ex_n1"
      "updatedAt ex_tie_equal = updatedAt ex_row"
      "version ex_tie_equal = of_int (version ex_row)"
    by (simp_all add: ex_row_def ex_tie_equal_def ex_facts)
  from equal_timestamp_tiebreak [OF h(1) sel h(2), of 99 "[]" "[]", THEN conjunct1,
      rule_format, of 4] h(3-8)
  have 1: "\<exists>db'. process_change ex_pf ex_u1 99 ([ex_row], [], []) ex_tie_higher
                = Inr (db', [ex_n1], [])
          \<and> select_note ex_n1 ex_u1 db' =
              Some (ex_row\<lparr>title := ''cli'', content := ''y'', deleted := False,
                            version := 5, updatedAt := 99\<rparr>)"
    by (simp add: ex_tie_higher_def)
  from equal_timestamp_tiebreak [OF l(1) sel l(2), of 99 "[]" "[]"] l(3)
  have 2: "process_change ex_pf ex_u1 99 ([ex_row], [], []) ex_tie_lower
       = Inr ([ex_row], [],
              [\<lparr>conflict_id = ex_n1, server = ex_row, client = ex_tie_lower\<rparr>])"
    by (simp add: ex_tie_lower_def)
  from equal_timestamp_tiebreak [OF e(1) sel e(2), of 99 "[]" "[]"] e(3)
  have 3: "process_change ex_pf ex_u1 99 ([ex_row], [], []) ex_tie_equal
             = Inr ([ex_row], [ex_n1], [])"
    by (simp add: ex_tie_equal_def)
  have o: "uuid_in ex_pf (note_id (ex_tie_higher\<lparr>version := 2147483647\<rparr>)) = Some ex_n1"
      "updatedAt (ex_tie_higher\<lparr>version := 2147483647\<rparr>) = updatedAt ex_row"
      "version (ex_tie_higher\<lparr>version := 2147483647\<rparr>) = of_int 2147483647"
      "version ex_row < 2147483647" "\<not> int32 (2147483647 + 1)"
    by (simp_all add: ex_row_def ex_tie_higher_def int32_def ex_facts)
  from equal_timestamp_tiebreak [OF o(1) sel o(2), of 99 "[]" "[]", THEN conjunct2,
      THEN conjunct1, rule_format, of 2147483647] o(3-5)
  have 4: "process_change ex_pf ex_u1 99 ([ex_row], [], [])
         (ex_tie_higher\<lparr>version := 2147483647\<rparr>)
       = Inl DataException"
    by simp
  from u sel h(2,3,4,5,8) 1 l(2,3) 2 e(2,3) 3 o(2-5) 4 show ?thesis
    by (intro conjI)
qed

section \<open>Owner isolation\<close>

text \<open>
  C10. A sync request of user \<open>uid\<close> leaves every row of another owner as it was: on a
  table that satisfies the primary key, the rows whose \<open>userId\<close> is not \<open>uid\<close> are the
  same, in the same order, before and after the request. A change whose id is stored for
  another owner only is not found by the owner-scoped lookup, and the insert it attempts
  raises: on the primary key when the columns accept its values, before that when they do
  not.
\<close>

theorem cross_owner_isolation:
  assumes "pk_ok db"
  shows "filter (\<lambda>n. userId n \<noteq> uid) (fst (sync pf uid clock req db))
           = filter (\<lambda>n. userId n \<noteq> uid) db
       \<and> (\<forall>c i now ap cf.
             uuid_in pf (note_id c) = Some i \<and> select_note i uid db = None
               \<and> i \<in> set (map note_id db) \<longrightarrow>
               (\<exists>e. process_change pf uid now (db, ap, cf) c = Inl e)
               \<and> (\<forall>k. accepted pf c \<and> integer_in (version c) = Some k \<longrightarrow>
                      process_change pf uid now (db, ap, cf) c = Inl UniqueViolation))"
proof -
  obtain db' ap' cf'
    where r: "sync_changes pf uid clock 0 (db, [], []) (changes req) = (db', ap', cf')"
    by (cases "sync_changes pf uid clock 0 (db, [], []) (changes req)") auto
  from sync_changes_pk_others [OF assms r]
  have "filter (\<lambda>n. userId n \<noteq> uid) (fst (sync pf uid clock req db))
           = filter (\<lambda>n. userId n \<noteq> uid) db"
    by (simp add: sync_def r)
  moreover have "\<forall>c i now ap cf.
             uuid_in pf (note_id c) = Some i \<and> select_note i uid db = None
               \<and> i \<in> set (map note_id db) \<longrightarrow>
               (\<exists>e. process_change pf uid now (db, ap, cf) c = Inl e)
               \<and> (\<forall>k. accepted pf c \<and> integer_in (version c) = Some k \<longrightarrow>
                      process_change pf uid now (db, ap, cf) c = Inl UniqueViolation)"
    using collision_raises collision_unique_violation by blast
  ultimately show ?thesis by blast
qed

theorem cross_owner_isolation_witness:
  "pk_ok [ex_other, ex_row]
   \<and> filter (\<lambda>n. userId n \<noteq> ex_u1)
       (fst (sync ex_pf ex_u1 (\<lambda>k. 99)
               \<lparr>clientId = ''c1'', lastSyncAt = None, changes = [ex_grab, ex_newer]\<rparr>
               [ex_other, ex_row]))
       = [ex_other]
   \<and> uuid_in ex_pf (note_id ex_grab) = Some ex_n2
   \<and> select_note ex_n2 ex_u1 [ex_other, ex_row] = None
   \<and> ex_n2 \<in> set (map note_id [ex_other, ex_row])
   \<and> accepted ex_pf ex_grab \<and> integer_in (version ex_grab) = Some 9
   \<and> process_change ex_pf ex_u1 99 ([ex_other, ex_row], [], []) ex_grab = Inl UniqueViolation"
proof -
  have pk: "pk_ok [ex_other, ex_row]"
    by (simp add: pk_ok_def ex_row_def ex_other_def ex_facts)
  have u: "uuid_in ex_pf (note_id ex_grab) = Some ex_n2"
    by (simp add: ex_grab_def ex_facts)
  have sel: "select_note ex_n2 ex_u1 [ex_other, ex_row] = None"
    by (simp add: select_note_def ex_row_def ex_other_def ex_facts)
  have mem: "ex_n2 \<in> set (map note_id [ex_other, ex_row])"
    by (simp add: ex_other_def)
  have acc: "accepted ex_pf ex_grab"
    by (simp add: accepted_def ex_grab_def ex_facts)
  have ver: "integer_in (version ex_grab) = Some 9"
    by (simp add: integer_in_def int32_def ex_grab_def)
  note iso = cross_owner_isolation [OF pk, of ex_u1 ex_pf "\<lambda>k. 99"
      "\<lparr>clientId = ''c1'', lastSyncAt = None, changes = [ex_grab, ex_newer]\<rparr>"]
  from iso have "filter (\<lambda>n. userId n \<noteq> ex_u1)
       (fst (sync ex_pf ex_u1 (\<lambda>k. 99)
               \<lparr>clientId = ''c1'', lastSyncAt = None, changes = [ex_grab, ex_newer]\<rparr>
               [ex_other, ex_row]))
       = filter (\<lambda>n. userId n \<noteq> ex_u1) [ex_other, ex_row]"
    by (rule conjunct1)
  then have 1: "filter (\<lambda>n. userId n \<noteq> ex_u1)
       (fst (sync ex_pf ex_u1 (\<lambda>k. 99)
               \<lparr>clientId = ''c1'', lastSyncAt = None, changes = [ex_grab, ex_newer]\<rparr>
               [ex_other, ex_row]))
       = [ex_other]"
    by (simp add: ex_row_def ex_other_def ex_facts)
  from iso [THEN conjunct2, rule_format, OF conjI [OF u conjI [OF sel mem]],
      THEN conjunct2, rule_format, OF conjI [OF acc ver], of 99 "[]" "[]"]
  have 2: "process_change ex_pf ex_u1 99 ([ex_other, ex_row], [], []) ex_grab
             = Inl UniqueViolation" .
  from pk 1 u sel mem acc ver 2 show ?thesis
    by (intro conjI)
qed

section \<open>The server changes of the response\<close>



lemma serverChanges_example:
  "serverChanges (snd (sync ex_pf ex_u1 (\<lambda>k. 99)
      \<lparr>clientId = ''c1'', lastSyncAt = Some 20, changes = []\<rparr>
      [ex_row, ex_other, ex_early, ex_mid])) = [ex_mid, ex_row]"
  by (simp add: sync_def ex_row_def ex_other_def ex_early_def ex_mid_def ex_facts)

text \<open>
  The first sync of a replica: no checkpoint, one created note, an empty table.
\<close>

lemma first_sync_example:
  "snd (sync ex_pf ex_u1 (\<lambda>k. 99)
          \<lparr>clientId = ''c1'', lastSyncAt = None, changes = [ex_fresh]\<rparr> [])
     = \<lparr>applied = [ex_n3], conflicts = [], serverChanges = [], serverTime = 99\<rparr>"
  by (simp add: sync_def select_note_def insert_note_def integer_in_def int32_def
        ex_fresh_def ex_facts)

text \<open>
  The same request with the id \<open>n1\<close>, which is not a uuid: the lookup raises, the error is
  swallowed, and nothing is applied.
\<close>

lemma first_sync_not_a_uuid_example:
  "sync ex_pf ex_u1 (\<lambda>k. 99)
     \<lparr>clientId = ''c1'', lastSyncAt = None, changes = [ex_fresh\<lparr>note_id := ''n1''\<rparr>]\<rparr> []
     = ([], \<lparr>applied = [], conflicts = [], serverChanges = [], serverTime = 99\<rparr>)"
  by (simp add: sync_def ex_fresh_def ex_facts)


text \<open>
  A \<open>lastSyncAt\<close> before the epoch year 1970 is refused by the example platform: the loop
  creates the note, the query for the server changes raises, and the request is answered
  with an error.
\<close>

lemma sync_reply_refused_lastSyncAt_example:
  "sync_reply ex_pf ex_u1 (\<lambda>k. 99)
     \<lparr>clientId = ''c1'', lastSyncAt = Some (- 1), changes = [ex_fresh]\<rparr> []
     = ([\<lparr>note_id = ex_n3, title = ''fresh'', content = ''y'', updatedAt = 40,
          deleted = False, version = 1, createdAt = 40, userId = ex_u1\<rparr>],
        Inl InternalError)"
  by (simp add: sync_reply_def sync_def select_note_def insert_note_def integer_in_def
        int32_def ex_fresh_def ex_facts)

section \<open>A change that raises\<close>

lemma process_change_records:
  assumes "process_change pf uid now (db, ap, cf) c = Inr (db', ap', cf')"
  shows "set ap' \<subseteq> insert (note_id c) (set ap)
       \<and> conflict_id ` set cf' \<subseteq> insert (note_id c) (conflict_id ` set cf)"
  using assms
  by (auto simp: insert_note_def split: option.splits if_splits)

lemma sync_changes_records:
  assumes "sync_changes pf uid clock k (db, ap, cf) cs = (db', ap', cf')"
  shows "set ap' \<subseteq> set ap \<union> note_id ` set cs
       \<and> conflict_id ` set cf' \<subseteq> conflict_id ` set cf \<union> note_id ` set cs"
  using assms
proof (induction cs arbitrary: k db ap cf)
  case Nil
  then show ?case by simp
next
  case (Cons c cs)
  show ?case
  proof (cases "process_change pf uid (clock (Suc k)) (db, ap, cf) c")
    case (Inl e)
    with Cons.prems
    have "sync_changes pf uid clock (Suc k) (db, ap, cf) cs = (db', ap', cf')" by simp
    from Cons.IH [OF this] show ?thesis
      by (simp add: image_subset_iff subset_iff)
  next
    case (Inr st1)
    obtain db1 ap1 cf1 where st1: "st1 = (db1, ap1, cf1)" by (cases st1) auto
    from Cons.prems Inr st1
    have "sync_changes pf uid clock (Suc k) (db1, ap1, cf1) cs = (db', ap', cf')" by simp
    note ih = Cons.IH [OF this]
    from Inr st1
    have "process_change pf uid (clock (Suc k)) (db, ap, cf) c = Inr (db1, ap1, cf1)"
      by simp
    note step = process_change_records [OF this]
    have a: "x \<in> set ap \<union> note_id ` set (c # cs)" if "x \<in> set ap'" for x
    proof -
      from ih that have "x \<in> set ap1 \<or> x \<in> note_id ` set cs" by blast
      with step show ?thesis by auto
    qed
    have b: "conflict_id y \<in> conflict_id ` set cf \<union> note_id ` set (c # cs)"
      if "y \<in> set cf'" for y
    proof -
      from ih that
      have "conflict_id y \<in> conflict_id ` set cf1 \<or> conflict_id y \<in> note_id ` set cs"
        by blast
      with step show ?thesis by auto
    qed
    from a b show ?thesis by blast
  qed
qed

lemma sync_changes_append:
  "sync_changes pf uid clock k st (xs @ ys)
     = sync_changes pf uid clock (k + length xs) (sync_changes pf uid clock k st xs) ys"
  by (induction xs arbitrary: k st) (auto split: sum.splits)

text \<open>
  C9, as stated, fails: two changes of one batch carry the same id; the first is applied,
  the update of the second raises (it would store the largest integer of the column plus
  1) and is swallowed. The id of the change that raised is in \<open>applied\<close>, put there by the
  first.
\<close>

theorem failed_change_id_applied_counterexample:
  "process_change ex_pf ex_u1 (ex_clock 2)
     (sync_changes ex_pf ex_u1 ex_clock 0 ([ex_row\<lparr>version := 2147483646\<rparr>], [], [])
        [ex_write_a])
     ex_write_b
     = Inl DataException
   \<and> applied (snd (sync ex_pf ex_u1 ex_clock
        \<lparr>clientId = ''c1'', lastSyncAt = None, changes = [ex_write_a, ex_write_b]\<rparr>
        [ex_row\<lparr>version := 2147483646\<rparr>]))
       = [ex_n1]
   \<and> note_id ex_write_b = ex_n1"
  by (simp add: sync_def select_note_def update_notes_def integer_in_def plus_one_def
        int32_def ex_row_def ex_write_a_def ex_write_b_def ex_clock_def ex_facts)

text \<open>
  C9, amended. When the body raises for the change \<open>c\<close> of a batch \<open>before @ c # after\<close>,
  the table, \<open>applied\<close> and \<open>conflicts\<close> stay as the changes before \<open>c\<close> left them, and the
  loop goes on: the changes after \<open>c\<close> are processed from exactly that state. When no other
  change of the batch carries the id of \<open>c\<close>, that id is in neither \<open>applied\<close> nor
  \<open>conflicts\<close> of the response. The request is answered with that response, not with an
  error, whenever the \<open>timestamp\<close> column accepts the \<open>lastSyncAt\<close> of the request (the one
  statement outside the \<open>try\<close> of the loop that can raise is the query that compares with
  it).
\<close>

theorem failure_isolated:
  assumes "changes req = before @ c # after"
    and "process_change pf uid (clock (Suc (length before)))
           (sync_changes pf uid clock 0 (db, [], []) before) c = Inl e"
  shows "sync_changes pf uid clock 0 (db, [], []) (changes req)
           = sync_changes pf uid clock (Suc (length before))
               (sync_changes pf uid clock 0 (db, [], []) before) after
       \<and> (note_id c \<notin> set (map note_id (before @ after)) \<longrightarrow>
            note_id c \<notin> set (applied (snd (sync pf uid clock req db)))
            \<and> note_id c \<notin> conflict_id ` set (conflicts (snd (sync pf uid clock req db))))
       \<and> ((\<forall>t. lastSyncAt req = Some t \<longrightarrow> timestamp_ok pf t) \<longrightarrow>
            sync_reply pf uid clock req db
              = (fst (sync pf uid clock req db), Inr (snd (sync pf uid clock req db))))"
proof -
  obtain db1 ap1 cf1
    where st1: "sync_changes pf uid clock 0 (db, [], []) before = (db1, ap1, cf1)"
    by (cases "sync_changes pf uid clock 0 (db, [], []) before") auto
  have cont: "sync_changes pf uid clock 0 (db, [], []) (changes req)
           = sync_changes pf uid clock (Suc (length before)) (db1, ap1, cf1) after"
    using assms st1 by (simp add: sync_changes_append)
  obtain db' ap' cf'
    where fin: "sync_changes pf uid clock (Suc (length before)) (db1, ap1, cf1) after
                  = (db', ap', cf')"
    by (cases "sync_changes pf uid clock (Suc (length before)) (db1, ap1, cf1) after") auto
  from sync_changes_records [OF st1]
  have 1: "set ap1 \<subseteq> note_id ` set before" "conflict_id ` set cf1 \<subseteq> note_id ` set before"
    by auto
  from sync_changes_records [OF fin] 1
  have 2: "set ap' \<subseteq> note_id ` set (before @ after)"
      "conflict_id ` set cf' \<subseteq> note_id ` set (before @ after)"
    by (simp_all add: image_Un) blast+
  have res: "applied (snd (sync pf uid clock req db)) = ap'"
      "conflicts (snd (sync pf uid clock req db)) = cf'"
    using cont fin by (simp_all add: sync_def)
  from 2 res
  have absent: "note_id c \<notin> set (map note_id (before @ after)) \<longrightarrow>
            note_id c \<notin> set (applied (snd (sync pf uid clock req db)))
            \<and> note_id c \<notin> conflict_id ` set (conflicts (snd (sync pf uid clock req db)))"
    by auto
  from cont st1
  have "sync_changes pf uid clock 0 (db, [], []) (changes req)
           = sync_changes pf uid clock (Suc (length before))
               (sync_changes pf uid clock 0 (db, [], []) before) after"
    by simp
  note continued = this
  have reply: "(\<forall>t. lastSyncAt req = Some t \<longrightarrow> timestamp_ok pf t) \<longrightarrow>
            sync_reply pf uid clock req db
              = (fst (sync pf uid clock req db), Inr (snd (sync pf uid clock req db)))"
    by (simp add: sync_reply_def split: prod.splits option.splits)
  from continued absent reply show ?thesis by (intro conjI)
qed

theorem failure_isolated_witness:
  "changes \<lparr>clientId = ''c1'', lastSyncAt = Some 20, changes = [ex_grab, ex_fresh]\<rparr>
     = [] @ ex_grab # [ex_fresh]
   \<and> process_change ex_pf ex_u1 99 (sync_changes ex_pf ex_u1 (\<lambda>k. 99) 0 ([ex_other], [], []) [])
        ex_grab
       = Inl UniqueViolation
   \<and> note_id ex_grab \<notin> set (map note_id ([] @ [ex_fresh]))
   \<and> sync_changes ex_pf ex_u1 (\<lambda>k. 99) 0 ([ex_other], [], []) [ex_grab, ex_fresh]
       = sync_changes ex_pf ex_u1 (\<lambda>k. 99) 1 ([ex_other], [], []) [ex_fresh]
   \<and> note_id ex_grab \<notin> set (applied (snd (sync ex_pf ex_u1 (\<lambda>k. 99)
         \<lparr>clientId = ''c1'', lastSyncAt = Some 20, changes = [ex_grab, ex_fresh]\<rparr> [ex_other])))
   \<and> note_id ex_grab \<notin> conflict_id ` set (conflicts (snd (sync ex_pf ex_u1 (\<lambda>k. 99)
         \<lparr>clientId = ''c1'', lastSyncAt = Some 20, changes = [ex_grab, ex_fresh]\<rparr> [ex_other])))
   \<and> applied (snd (sync ex_pf ex_u1 (\<lambda>k. 99)
         \<lparr>clientId = ''c1'', lastSyncAt = Some 20, changes = [ex_grab, ex_fresh]\<rparr> [ex_other]))
       = [ex_n3]
   \<and> timestamp_ok ex_pf 20
   \<and> sync_reply ex_pf ex_u1 (\<lambda>k. 99)
         \<lparr>clientId = ''c1'', lastSyncAt = Some 20, changes = [ex_grab, ex_fresh]\<rparr> [ex_other]
       = (fst (sync ex_pf ex_u1 (\<lambda>k. 99)
            \<lparr>clientId = ''c1'', lastSyncAt = Some 20, changes = [ex_grab, ex_fresh]\<rparr>
            [ex_other]),
          Inr (snd (sync ex_pf ex_u1 (\<lambda>k. 99)
            \<lparr>clientId = ''c1'', lastSyncAt = Some 20, changes = [ex_grab, ex_fresh]\<rparr>
            [ex_other])))"
proof -
  have ch: "changes \<lparr>clientId = ''c1'', lastSyncAt = Some 20, changes = [ex_grab, ex_fresh]\<rparr>
              = [] @ ex_grab # [ex_fresh]"
    by simp
  have raises: "process_change ex_pf ex_u1 ((\<lambda>k. 99) (Suc (length ([] :: rat note_change list))))
       (sync_changes ex_pf ex_u1 (\<lambda>k. 99) 0 ([ex_other], [], []) []) ex_grab
       = Inl UniqueViolation"
    by (simp add: select_note_def insert_note_def integer_in_def int32_def ex_other_def
          ex_grab_def ex_facts)
  have other: "note_id ex_grab \<notin> set (map note_id ([] @ [ex_fresh]))"
    by (simp add: ex_grab_def ex_fresh_def ex_facts)
  have ap: "applied (snd (sync ex_pf ex_u1 (\<lambda>k. 99)
         \<lparr>clientId = ''c1'', lastSyncAt = Some 20, changes = [ex_grab, ex_fresh]\<rparr> [ex_other]))
       = [ex_n3]"
    by (simp add: sync_def select_note_def insert_note_def integer_in_def int32_def
          ex_other_def ex_grab_def ex_fresh_def ex_facts)
  note iso = failure_isolated
      [of "\<lparr>clientId = ''c1'', lastSyncAt = Some 20, changes = [ex_grab, ex_fresh]\<rparr>"
        "[]" ex_grab "[ex_fresh]" ex_pf ex_u1 "\<lambda>k. 99" "[ex_other]" UniqueViolation,
        OF ch raises]
  from raises
  have r: "process_change ex_pf ex_u1 99
      (sync_changes ex_pf ex_u1 (\<lambda>k. 99) 0 ([ex_other], [], []) []) ex_grab
      = Inl UniqueViolation"
    by simp
  from iso [THEN conjunct1]
  have 1: "sync_changes ex_pf ex_u1 (\<lambda>k. 99) 0 ([ex_other], [], []) [ex_grab, ex_fresh]
       = sync_changes ex_pf ex_u1 (\<lambda>k. 99) 1 ([ex_other], [], []) [ex_fresh]"
    by simp
  from iso [THEN conjunct2, THEN conjunct1, rule_format, OF other]
  have 2: "note_id ex_grab \<notin> set (applied (snd (sync ex_pf ex_u1 (\<lambda>k. 99)
         \<lparr>clientId = ''c1'', lastSyncAt = Some 20, changes = [ex_grab, ex_fresh]\<rparr> [ex_other])))"
    and 3: "note_id ex_grab \<notin> conflict_id ` set (conflicts (snd (sync ex_pf ex_u1 (\<lambda>k. 99)
         \<lparr>clientId = ''c1'', lastSyncAt = Some 20, changes = [ex_grab, ex_fresh]\<rparr> [ex_other])))"
    by blast+
  have ts: "timestamp_ok ex_pf 20"
    by (simp add: ex_facts)
  from iso [THEN conjunct2, THEN conjunct2] ts
  have 4: "sync_reply ex_pf ex_u1 (\<lambda>k. 99)
         \<lparr>clientId = ''c1'', lastSyncAt = Some 20, changes = [ex_grab, ex_fresh]\<rparr> [ex_other]
       = (fst (sync ex_pf ex_u1 (\<lambda>k. 99)
            \<lparr>clientId = ''c1'', lastSyncAt = Some 20, changes = [ex_grab, ex_fresh]\<rparr>
            [ex_other]),
          Inr (snd (sync ex_pf ex_u1 (\<lambda>k. 99)
            \<lparr>clientId = ''c1'', lastSyncAt = Some 20, changes = [ex_grab, ex_fresh]\<rparr>
            [ex_other])))"
    by simp
  from ch r other 1 2 3 ap ts 4 show ?thesis
    by (intro conjI)
qed


section \<open>Lookup by id under the primary key\<close>

lemma note_by_id_update:
  assumes "\<And>n. note_id (f n) = note_id n"
  shows "note_by_id j (update_notes i f db)
           = map_option (\<lambda>n. if note_id n = i then f n else n) (note_by_id j db)"
  unfolding note_by_id_def update_notes_def
  by (induction db) (auto simp: assms)

lemma note_by_id_append:
  "note_by_id j (db @ [n])
     = (case note_by_id j db of
          Some s \<Rightarrow> Some s
        | None \<Rightarrow> if note_id n = j then Some n else None)"
  unfolding note_by_id_def by (induction db) auto

lemma note_by_id_SomeD: "note_by_id i db = Some s \<Longrightarrow> s \<in> set db \<and> note_id s = i"
  unfolding note_by_id_def by (auto simp: find_Some_iff)

lemma select_live_SomeD:
  "select_live i u db = Some s \<Longrightarrow> s \<in> set db \<and> note_id s = i \<and> userId s = u \<and> \<not> deleted s"
  unfolding select_live_def by (auto simp: find_Some_iff)

lemma select_note_is_by_id:
  assumes "pk_ok db" and "select_note i u db = Some s"
  shows "note_by_id i db = Some s"
proof -
  from select_note_SomeD [OF assms(2)] have s: "s \<in> set db" "note_id s = i" by auto
  then obtain r where r: "note_by_id i db = Some r"
    unfolding note_by_id_def by (cases "find (\<lambda>n. note_id n = i) db") (auto simp: find_None_iff)
  from note_by_id_SomeD [OF r] s pk_ok_same_id [OF assms(1)] have "r = s" by metis
  with r show ?thesis by simp
qed

lemma select_live_is_by_id:
  assumes "pk_ok db" and "select_live i u db = Some s"
  shows "note_by_id i db = Some s"
proof -
  from select_live_SomeD [OF assms(2)] have s: "s \<in> set db" "note_id s = i" by auto
  then obtain r where r: "note_by_id i db = Some r"
    unfolding note_by_id_def by (cases "find (\<lambda>n. note_id n = i) db") (auto simp: find_None_iff)
  from note_by_id_SomeD [OF r] s pk_ok_same_id [OF assms(1)] have "r = s" by metis
  with r show ?thesis by simp
qed

lemma note_by_id_None_select:
  "note_by_id i db = None \<Longrightarrow> select_note i u db = None \<and> i \<notin> set (map note_id db)"
  unfolding note_by_id_def select_note_def by (auto simp: find_None_iff)

section \<open>Versions\<close>

text \<open>
  The version an update stores is above the stored one: the sum is taken of a number that
  is not below the stored version, and a JavaScript sum \<open>x + 1\<close> is not below \<open>x\<close>.
\<close>

lemma next_version_above:
  assumes "\<And>x. x \<le> add_one pf x" and "of_int v \<le> m"
    and "integer_in (plus_one pf m) = Some w"
  shows "v < w"
proof (cases "m = of_int \<lfloor>m\<rfloor>")
  case True
  with assms(3) have "of_int w = m + 1"
    by (simp add: plus_one_def integer_in_Some)
  with assms(2) have "(of_int v :: rat) < of_int w" by simp
  then show ?thesis by simp
next
  case False
  with assms(2) have "of_int v < m"
    by (metis floor_of_int less_eq_rat_def)
  moreover from False assms(3) have "of_int w = add_one pf m"
    by (simp add: plus_one_def integer_in_Some)
  ultimately have "(of_int v :: rat) < of_int w"
    using assms(1) [of m] by simp
  then show ?thesis by simp
qed

lemma process_change_version:
  assumes "pk_ok db" and "note_by_id i db = Some s"
    and "process_change pf uid now (db, ap, cf) c = Inr (db', ap', cf')"
  shows "\<exists>s'. note_by_id i db' = Some s'
           \<and> (s' = s
               \<or> (uuid_in pf (note_id c) = Some i
                   \<and> integer_in (plus_one pf (max (of_int (version s)) (version c)))
                       = Some (version s')))"
proof (cases "uuid_in pf (note_id c)")
  case None
  with assms(3) show ?thesis by simp
next
  case (Some j)
  show ?thesis
  proof (cases "select_note j uid db")
    case None
    with assms(2,3) Some show ?thesis
      by (auto simp: insert_note_def note_by_id_append split: if_splits option.splits)
  next
    case found: (Some e)
    from select_note_is_by_id [OF assms(1) found] have e: "note_by_id j db = Some e" .
    show ?thesis
    proof (cases "i = j")
      case True
      with e assms(2) have "e = s" by simp
      with assms(2,3) Some found True note_by_id_SomeD [OF assms(2)] show ?thesis
        by (auto simp: note_by_id_update max_def split: if_splits option.splits)
    next
      case False
      with assms(2,3) Some found note_by_id_SomeD [OF assms(2)] show ?thesis
        by (auto simp: note_by_id_update split: if_splits option.splits)
    qed
  qed
qed

lemma process_change_version_le:
  assumes "\<And>x. x \<le> add_one pf x"
    and "pk_ok db" and "note_by_id i db = Some s"
    and "process_change pf uid now (db, ap, cf) c = Inr (db', ap', cf')"
  shows "\<exists>s'. note_by_id i db' = Some s' \<and> version s \<le> version s'"
proof -
  from process_change_version [OF assms(2,3,4)]
  obtain s' where s': "note_by_id i db' = Some s'"
    and d: "s' = s \<or> integer_in (plus_one pf (max (of_int (version s)) (version c)))
                       = Some (version s')"
    by blast
  from d have "version s \<le> version s'"
  proof
    assume "s' = s"
    then show ?thesis by simp
  next
    assume "integer_in (plus_one pf (max (of_int (version s)) (version c)))
              = Some (version s')"
    from next_version_above [OF assms(1) _ this, of "version s"]
    show ?thesis by simp
  qed
  with s' show ?thesis by blast
qed

lemma sync_changes_version:
  assumes "\<And>x. x \<le> add_one pf x"
    and "pk_ok db" and "note_by_id i db = Some s"
    and "sync_changes pf uid clock k (db, ap, cf) cs = (db', ap', cf')"
  shows "\<exists>s'. note_by_id i db' = Some s' \<and> version s \<le> version s'"
  using assms(2,3,4)
proof (induction cs arbitrary: k db ap cf s)
  case Nil
  then show ?case by simp
next
  case (Cons c cs)
  show ?case
  proof (cases "process_change pf uid (clock (Suc k)) (db, ap, cf) c")
    case (Inl e)
    with Cons.prems Cons.IH [of db s "Suc k" ap cf] show ?thesis by simp
  next
    case (Inr st1)
    obtain db1 ap1 cf1 where st1: "st1 = (db1, ap1, cf1)" by (cases st1) auto
    from Inr st1
    have step: "process_change pf uid (clock (Suc k)) (db, ap, cf) c = Inr (db1, ap1, cf1)"
      by simp
    from process_change_pk [OF Cons.prems(1) step] have pk1: "pk_ok db1" .
    from process_change_version_le [OF assms(1) Cons.prems(1,2) step]
    obtain s1 where s1: "note_by_id i db1 = Some s1" and le1: "version s \<le> version s1"
      by auto
    from Cons.prems(3) step
    have "sync_changes pf uid clock (Suc k) (db1, ap1, cf1) cs = (db', ap', cf')" by simp
    from Cons.IH [OF pk1 s1 this] le1 show ?thesis by auto
  qed
qed

lemma put_note_version:
  assumes "pk_ok db" and "note_by_id i db = Some s"
    and "put_note pf uid now j body db = Inr (db', r)"
  shows "\<exists>s'. note_by_id i db' = Some s'
           \<and> (if uuid_in pf j = Some i then version s' = version s + 1 else s' = s)"
proof -
  from assms(3) obtain j' where j': "uuid_in pf j = Some j'"
    by (cases "uuid_in pf j") (auto simp: put_note_def split: if_splits)
  from assms(3) j' obtain e where live: "select_live j' uid db = Some e"
    by (cases "select_live j' uid db") (auto simp: put_note_def split: if_splits)
  from select_live_is_by_id [OF assms(1) live] have e: "note_by_id j' db = Some e" .
  with assms(2) have "i = j' \<Longrightarrow> e = s" by simp
  with assms(2,3) j' live note_by_id_SomeD [OF assms(2)] show ?thesis
    by (cases "i = j'")
      (auto simp: put_note_def Let_def note_by_id_update split: option.splits if_splits)
qed

lemma delete_note_version:
  assumes "pk_ok db" and "note_by_id i db = Some s"
    and "delete_note pf uid now j db = Inr db'"
  shows "\<exists>s'. note_by_id i db' = Some s'
           \<and> (if uuid_in pf j = Some i then version s' = version s + 1 else s' = s)"
proof -
  from assms(3) obtain j' where j': "uuid_in pf j = Some j'"
    by (cases "uuid_in pf j") (auto simp: delete_note_def)
  from assms(3) j' obtain e where live: "select_live j' uid db = Some e"
    by (cases "select_live j' uid db") (auto simp: delete_note_def)
  from select_live_is_by_id [OF assms(1) live] have e: "note_by_id j' db = Some e" .
  with assms(2) have "i = j' \<Longrightarrow> e = s" by simp
  with assms(2,3) j' live note_by_id_SomeD [OF assms(2)] show ?thesis
    by (cases "i = j'") (auto simp: delete_note_def note_by_id_update split: if_splits)
qed

lemma resolve_keeps_version:
  assumes "pk_ok db" and "note_by_id i db = Some s"
    and "resolve pf uid now j res md db = Inr (db', r)"
  shows "\<exists>s'. note_by_id i db' = Some s'
           \<and> (s' = s \<or> (uuid_in pf j = Some i \<and> version s' = version s + 1))"
proof -
  from assms(3) obtain j' where j': "uuid_in pf j = Some j'"
    by (cases "uuid_in pf j") (auto simp: resolve_def)
  from assms(3) j' obtain e where found: "select_note j' uid db = Some e"
    by (cases "select_note j' uid db") (auto simp: resolve_def)
  from select_note_is_by_id [OF assms(1) found] have e: "note_by_id j' db = Some e" .
  with assms(2) have "i = j' \<Longrightarrow> e = s" by simp
  with assms(2,3) j' found note_by_id_SomeD [OF assms(2)] show ?thesis
    by (cases "i = j'")
      (auto simp: resolve_def note_by_id_update split: option.splits if_splits sum.splits)
qed

lemma process_change_create:
  assumes "uuid_in pf (note_id c) = Some i" and "note_by_id i db = None"
    and "accepted pf c" and "integer_in (version c) = Some k"
  shows "process_change pf uid now (db, ap, cf) c
           = Inr (db @ [\<lparr>note_id = i, title = title c, content = content c,
                         updatedAt = updatedAt c, deleted = deleted c, version = k,
                         createdAt = updatedAt c, userId = uid\<rparr>],
                  ap @ [note_id c], cf)"
  using assms note_by_id_None_select [OF assms(2), of uid]
  by (simp add: insert_note_def accepted_def)

text \<open>
  C3, as stated, fails: a stored note of version 3 and a newer change of version 7 give the
  stored version 8, which is not the stored version plus 1.
\<close>

theorem version_plus_one_counterexample:
  "process_change ex_pf ex_u1 99 ([ex_row], [], []) ex_newer
     = Inr ([ex_row\<lparr>title := ''new'', content := ''y'', deleted := True,
                    version := 8, updatedAt := 60\<rparr>], [ex_n1], [])
   \<and> version ex_row = 3
   \<and> (8::int) \<noteq> 3 + 1"
  by (simp add: select_note_def update_notes_def integer_in_def plus_one_def int32_def
        ex_row_def ex_newer_def ex_facts)

text \<open>
  C3, amended. On a table that satisfies the primary key, for a stored note \<open>s\<close> of id \<open>i\<close>
  (and a runtime whose sum \<open>x + 1\<close> is not below \<open>x\<close>):
  a sync change leaves \<open>s\<close> as it is or, for a change of integer version \<open>k\<close>, stores
  version \<open>max storedVersion k + 1\<close>; after a whole sync request the version is not below
  the stored one; PUT and DELETE on \<open>i\<close> that succeed store the stored version plus 1 and
  leave every other note as it is; a resolve request that succeeds leaves \<open>s\<close> as it is or
  stores the stored version plus 1. A sync change whose id is a uuid that is not stored,
  and whose values the columns accept, inserts the note with the version the client sent.
\<close>

theorem version_never_decreases:
  assumes "pk_ok db" and "note_by_id i db = Some s"
    and "\<And>x. x \<le> add_one pf x"
  shows "(\<forall>uid now ap cf c db' ap' cf'.
            process_change pf uid now (db, ap, cf) c = Inr (db', ap', cf') \<longrightarrow>
              (\<exists>s'. note_by_id i db' = Some s'
                 \<and> (s' = s
                     \<or> (uuid_in pf (note_id c) = Some i \<and> version s < version s'
                         \<and> (\<forall>k. version c = of_int k \<longrightarrow>
                                version s' = max (version s) k + 1)))))
       \<and> (\<forall>uid clock req.
            \<exists>s'. note_by_id i (fst (sync pf uid clock req db)) = Some s'
               \<and> version s \<le> version s')
       \<and> (\<forall>uid now j body db' r.
            put_note pf uid now j body db = Inr (db', r) \<longrightarrow>
              (\<exists>s'. note_by_id i db' = Some s'
                 \<and> (if uuid_in pf j = Some i then version s' = version s + 1 else s' = s)))
       \<and> (\<forall>uid now j db'.
            delete_note pf uid now j db = Inr db' \<longrightarrow>
              (\<exists>s'. note_by_id i db' = Some s'
                 \<and> (if uuid_in pf j = Some i then version s' = version s + 1 else s' = s)))
       \<and> (\<forall>uid now j res md db' r.
            resolve pf uid now j res md db = Inr (db', r) \<longrightarrow>
              (\<exists>s'. note_by_id i db' = Some s'
                 \<and> (s' = s \<or> (uuid_in pf j = Some i \<and> version s' = version s + 1))))
       \<and> (\<forall>uid now ap cf c j k.
            uuid_in pf (note_id c) = Some j \<and> note_by_id j db = None
              \<and> accepted pf c \<and> integer_in (version c) = Some k \<longrightarrow>
              process_change pf uid now (db, ap, cf) c
                = Inr (db @ [\<lparr>note_id = j, title = title c, content = content c,
                              updatedAt = updatedAt c, deleted = deleted c,
                              version = k, createdAt = updatedAt c, userId = uid\<rparr>],
                       ap @ [note_id c], cf))"
proof (intro conjI allI impI)
  fix uid now ap cf c db' ap' cf'
  assume step: "process_change pf uid now (db, ap, cf) c = Inr (db', ap', cf')"
  from process_change_version [OF assms(1,2) step]
  obtain s' where s': "note_by_id i db' = Some s'"
    and d: "s' = s
            \<or> (uuid_in pf (note_id c) = Some i
                \<and> integer_in (plus_one pf (max (of_int (version s)) (version c)))
                    = Some (version s'))"
    by blast
  from d
  have "s' = s
        \<or> (uuid_in pf (note_id c) = Some i \<and> version s < version s'
            \<and> (\<forall>k. version c = of_int k \<longrightarrow> version s' = max (version s) k + 1))"
  proof
    assume "s' = s"
    then show ?thesis by simp
  next
    assume w: "uuid_in pf (note_id c) = Some i
                \<and> integer_in (plus_one pf (max (of_int (version s)) (version c)))
                    = Some (version s')"
    from next_version_above [OF assms(3) _ w [THEN conjunct2], of "version s"]
    have up: "version s < version s'" by simp
    have "version s' = max (version s) k + 1" if "version c = of_int k" for k
      using w that by (simp add: max_of_int_rat next_version_of_int split: if_splits)
    with w up show ?thesis by blast
  qed
  with s' show "\<exists>s'. note_by_id i db' = Some s'
           \<and> (s' = s
               \<or> (uuid_in pf (note_id c) = Some i \<and> version s < version s'
                   \<and> (\<forall>k. version c = of_int k \<longrightarrow> version s' = max (version s) k + 1)))"
    by blast
next
  fix uid clock and req :: sync_request
  obtain db' ap' cf'
    where r: "sync_changes pf uid clock 0 (db, [], []) (changes req) = (db', ap', cf')"
    by (cases "sync_changes pf uid clock 0 (db, [], []) (changes req)") auto
  from sync_changes_version [OF assms(3) assms(1,2) r]
  show "\<exists>s'. note_by_id i (fst (sync pf uid clock req db)) = Some s'
          \<and> version s \<le> version s'"
    by (simp add: sync_def r)
next
  fix uid now j body db' r
  assume "put_note pf uid now j body db = Inr (db', r)"
  from put_note_version [OF assms(1,2) this]
  show "\<exists>s'. note_by_id i db' = Some s'
          \<and> (if uuid_in pf j = Some i then version s' = version s + 1 else s' = s)" .
next
  fix uid now j db'
  assume "delete_note pf uid now j db = Inr db'"
  from delete_note_version [OF assms(1,2) this]
  show "\<exists>s'. note_by_id i db' = Some s'
          \<and> (if uuid_in pf j = Some i then version s' = version s + 1 else s' = s)" .
next
  fix uid now j res md db' r
  assume "resolve pf uid now j res md db = Inr (db', r)"
  from resolve_keeps_version [OF assms(1,2) this]
  show "\<exists>s'. note_by_id i db' = Some s'
          \<and> (s' = s \<or> (uuid_in pf j = Some i \<and> version s' = version s + 1))" .
next
  fix uid now ap cf and c :: "rat note_change" and j k
  assume a: "uuid_in pf (note_id c) = Some j \<and> note_by_id j db = None
              \<and> accepted pf c \<and> integer_in (version c) = Some k"
  from a have a1: "uuid_in pf (note_id c) = Some j" and a2: "note_by_id j db = None"
    and a3: "accepted pf c" and a4: "integer_in (version c) = Some k"
    by simp_all
  show "process_change pf uid now (db, ap, cf) c
          = Inr (db @ [\<lparr>note_id = j, title = title c, content = content c,
                        updatedAt = updatedAt c, deleted = deleted c,
                        version = k, createdAt = updatedAt c, userId = uid\<rparr>],
                 ap @ [note_id c], cf)"
    by (rule process_change_create [OF a1 a2 a3 a4])
qed


theorem version_never_decreases_witness:
  "pk_ok [ex_row] \<and> note_by_id ex_n1 [ex_row] = Some ex_row
   \<and> process_change ex_pf ex_u1 99 ([ex_row], [], []) ex_newer
       = Inr ([ex_row\<lparr>title := ''new'', content := ''y'', deleted := True,
                      version := 8, updatedAt := 60\<rparr>], [ex_n1], [])
   \<and> (\<exists>s'. note_by_id ex_n1 [ex_row\<lparr>title := ''new'', content := ''y'', deleted := True,
                                     version := 8, updatedAt := 60\<rparr>] = Some s'
          \<and> version ex_row < version s'
          \<and> version s' = max (version ex_row) 7 + 1)
   \<and> (\<exists>s'. note_by_id ex_n1
              (fst (sync ex_pf ex_u1 ex_clock
                 \<lparr>clientId = ''c1'', lastSyncAt = None, changes = [ex_newer]\<rparr> [ex_row]))
              = Some s'
          \<and> version ex_row \<le> version s')
   \<and> put_note ex_pf ex_u1 99 ex_n1 \<lparr>newTitle = Some ''put'', newContent = None\<rparr> [ex_row]
       = Inr ([ex_row\<lparr>title := ''put'', version := 4, updatedAt := 99\<rparr>],
              ex_row\<lparr>title := ''put'', version := 4, updatedAt := 99\<rparr>)
   \<and> (\<exists>s'. note_by_id ex_n1 [ex_row\<lparr>title := ''put'', version := 4, updatedAt := 99\<rparr>]
              = Some s'
          \<and> version s' = version ex_row + 1)
   \<and> delete_note ex_pf ex_u1 99 ex_n1 [ex_row]
       = Inr [ex_row\<lparr>deleted := True, version := 4, updatedAt := 99\<rparr>]
   \<and> (\<exists>s'. note_by_id ex_n1 [ex_row\<lparr>deleted := True, version := 4, updatedAt := 99\<rparr>]
              = Some s'
          \<and> version s' = version ex_row + 1)
   \<and> resolve ex_pf ex_u1 99 ex_n1 Server None [ex_row]
       = Inr ([ex_row\<lparr>version := 4, updatedAt := 99\<rparr>],
              ex_row\<lparr>version := 4, updatedAt := 99\<rparr>)
   \<and> (\<exists>s'. note_by_id ex_n1 [ex_row\<lparr>version := 4, updatedAt := 99\<rparr>] = Some s'
          \<and> version s' = version ex_row + 1)
   \<and> uuid_in ex_pf (note_id ex_fresh) = Some ex_n3
   \<and> note_by_id ex_n3 [ex_row] = None
   \<and> accepted ex_pf ex_fresh
   \<and> integer_in (version ex_fresh) = Some 1
   \<and> process_change ex_pf ex_u1 99 ([ex_row], [], []) ex_fresh
       = Inr ([ex_row] @ [\<lparr>note_id = ex_n3, title = title ex_fresh,
                            content = content ex_fresh, updatedAt = updatedAt ex_fresh,
                            deleted = deleted ex_fresh, version = 1,
                            createdAt = updatedAt ex_fresh, userId = ex_u1\<rparr>],
              [] @ [note_id ex_fresh], [])"
proof -
  have pk: "pk_ok [ex_row]"
    by (simp add: pk_ok_def)
  have nb: "note_by_id ex_n1 [ex_row] = Some ex_row"
    by (simp add: note_by_id_def ex_row_def)
  have mono: "\<And>x. x \<le> add_one ex_pf x"
    by (simp add: ex_facts)
  note t = version_never_decreases [OF pk nb mono]
  have pc: "process_change ex_pf ex_u1 99 ([ex_row], [], []) ex_newer
       = Inr ([ex_row\<lparr>title := ''new'', content := ''y'', deleted := True,
                      version := 8, updatedAt := 60\<rparr>], [ex_n1], [])"
    by (simp add: select_note_def update_notes_def integer_in_def plus_one_def int32_def
          ex_row_def ex_newer_def ex_facts)
  have pu: "put_note ex_pf ex_u1 99 ex_n1 \<lparr>newTitle = Some ''put'', newContent = None\<rparr>
              [ex_row]
       = Inr ([ex_row\<lparr>title := ''put'', version := 4, updatedAt := 99\<rparr>],
              ex_row\<lparr>title := ''put'', version := 4, updatedAt := 99\<rparr>)"
    by (simp add: put_note_def updateNoteSchema_def select_live_def update_notes_def
          note_by_id_def int32_def ex_row_def ex_facts)
  have de: "delete_note ex_pf ex_u1 99 ex_n1 [ex_row]
       = Inr [ex_row\<lparr>deleted := True, version := 4, updatedAt := 99\<rparr>]"
    by (simp add: delete_note_def select_live_def update_notes_def int32_def ex_row_def
          ex_facts)
  have re: "resolve ex_pf ex_u1 99 ex_n1 Server None [ex_row]
       = Inr ([ex_row\<lparr>version := 4, updatedAt := 99\<rparr>],
              ex_row\<lparr>version := 4, updatedAt := 99\<rparr>)"
    by (simp add: resolve_def select_note_def update_notes_def note_by_id_def int32_def
          ex_row_def ex_facts)
  have u3: "uuid_in ex_pf (note_id ex_fresh) = Some ex_n3"
    by (simp add: ex_fresh_def ex_facts)
  have no: "note_by_id ex_n3 [ex_row] = None"
    by (simp add: note_by_id_def ex_row_def ex_facts)
  have acc: "accepted ex_pf ex_fresh"
    by (simp add: accepted_def ex_fresh_def ex_facts)
  have v1: "integer_in (version ex_fresh) = Some 1"
    by (simp add: integer_in_def int32_def ex_fresh_def)
  have "\<exists>s'. note_by_id ex_n1 [ex_row\<lparr>title := ''new'', content := ''y'', deleted := True,
                                     version := 8, updatedAt := 60\<rparr>] = Some s'
          \<and> version ex_row < version s'
          \<and> version s' = max (version ex_row) 7 + 1"
    using t [THEN conjunct1, rule_format, OF pc]
    by (auto simp: note_by_id_def ex_row_def ex_newer_def ex_facts)
  note t1 = this
  note t2 = t [THEN conjunct2, THEN conjunct1, rule_format, of ex_u1 ex_clock
      "\<lparr>clientId = ''c1'', lastSyncAt = None, changes = [ex_newer]\<rparr>"]
  from t [THEN conjunct2, THEN conjunct2, THEN conjunct1, rule_format, OF pu]
  have t3: "\<exists>s'. note_by_id ex_n1
        [ex_row\<lparr>title := ''put'', version := 4, updatedAt := 99\<rparr>] = Some s'
      \<and> version s' = version ex_row + 1"
    by (simp add: ex_facts)
  from t [THEN conjunct2, THEN conjunct2, THEN conjunct2, THEN conjunct1, rule_format, OF de]
  have t4: "\<exists>s'. note_by_id ex_n1
        [ex_row\<lparr>deleted := True, version := 4, updatedAt := 99\<rparr>] = Some s'
      \<and> version s' = version ex_row + 1"
    by (simp add: ex_facts)
  from t [THEN conjunct2, THEN conjunct2, THEN conjunct2, THEN conjunct2, THEN conjunct1,
      rule_format, OF re]
  have t5: "\<exists>s'. note_by_id ex_n1 [ex_row\<lparr>version := 4, updatedAt := 99\<rparr>] = Some s'
      \<and> version s' = version ex_row + 1"
    by (auto simp: note_by_id_def ex_row_def ex_facts)
  have t6: "process_change ex_pf ex_u1 99 ([ex_row], [], []) ex_fresh
       = Inr ([ex_row] @ [\<lparr>note_id = ex_n3, title = title ex_fresh,
                            content = content ex_fresh, updatedAt = updatedAt ex_fresh,
                            deleted = deleted ex_fresh, version = 1,
                            createdAt = updatedAt ex_fresh, userId = ex_u1\<rparr>],
              [] @ [note_id ex_fresh], [])"
    by (rule t [THEN conjunct2, THEN conjunct2, THEN conjunct2, THEN conjunct2,
          THEN conjunct2, rule_format]) (intro conjI u3 no acc v1)
  from pk nb pc t1 t2 pu t3 de t4 re t5 u3 no acc v1 t6 show ?thesis
    by (intro conjI)
qed

section \<open>Conflict resolution\<close>

text \<open>
  C4, as stated, fails: the handler has no branch for \<open>'client'\<close>, and the request has no
  field for the client's change. A \<open>'client'\<close> request on a stored note of version 3 writes
  nothing and returns the stored note, whose version is 3 and not 3 plus 1, with the stored
  title and content.
\<close>

theorem resolve_client_counterexample:
  "resolve ex_pf ex_u1 99 ex_n1 Client None [ex_row] = Inr ([ex_row], ex_row)
   \<and> version ex_row = 3
   \<and> (3::int) \<noteq> 3 + 1"
  by (simp add: resolve_def select_note_def note_by_id_def ex_row_def ex_facts)

text \<open>
  The same holds of \<open>'manual'\<close> without \<open>manualData\<close>, and at the last version of the column
  \<open>'server'\<close> is answered with 500 and writes nothing.
\<close>

lemma resolve_manual_without_data_example:
  "resolve ex_pf ex_u1 99 ex_n1 Manual None [ex_row] = Inr ([ex_row], ex_row)"
  by (simp add: resolve_def select_note_def note_by_id_def ex_row_def ex_facts)

lemma resolve_server_overflow_example:
  "resolve ex_pf ex_u1 99 ex_n1 Server None [ex_row\<lparr>version := 2147483647\<rparr>]
     = Inl InternalError"
  by (simp add: resolve_def select_note_def int32_def ex_row_def ex_facts)

text \<open>
  C4, amended. For a note \<open>n\<close> the caller owns, whose id the request names, on a table that
  satisfies the primary key:
  \<open>'server'\<close>, when the stored version plus 1 is in the integer column and the column
  accepts the server's clock, returns and stores the note with the version plus 1 and
  \<open>updatedAt\<close> the server's clock, its other fields unchanged;
  \<open>'manual'\<close> with \<open>manualData\<close>, when in addition the columns accept the supplied title and
  content, returns and stores it with the supplied title and content, the version plus 1
  and \<open>updatedAt\<close> the server's clock;
  both are answered with 500 when the stored version plus 1 is outside the integer column;
  \<open>'client'\<close>, and \<open>'manual'\<close> without \<open>manualData\<close>, write nothing and return the stored
  note, version unchanged.
\<close>

theorem resolve_version:
  assumes "pk_ok db" and "uuid_in pf j = Some i" and "select_note i uid db = Some n"
  shows "(timestamp_ok pf now \<and> int32 (version n + 1) \<longrightarrow>
            (\<exists>db'. resolve pf uid now j Server manualData db
                      = Inr (db', n\<lparr>version := version n + 1, updatedAt := now\<rparr>)
                  \<and> note_by_id i db'
                      = Some (n\<lparr>version := version n + 1, updatedAt := now\<rparr>)))
       \<and> (text_ok pf (manualTitle m) \<and> text_ok pf (manualContent m)
            \<and> timestamp_ok pf now \<and> int32 (version n + 1) \<longrightarrow>
            (\<exists>db'. resolve pf uid now j Manual (Some m) db
                      = Inr (db', n\<lparr>title := manualTitle m, content := manualContent m,
                                     version := version n + 1, updatedAt := now\<rparr>)
                  \<and> note_by_id i db'
                      = Some (n\<lparr>title := manualTitle m, content := manualContent m,
                                version := version n + 1, updatedAt := now\<rparr>)))
       \<and> (\<not> int32 (version n + 1) \<longrightarrow>
            resolve pf uid now j Server manualData db = Inl InternalError
            \<and> resolve pf uid now j Manual (Some m) db = Inl InternalError)
       \<and> resolve pf uid now j Client manualData db = Inr (db, n)
       \<and> resolve pf uid now j Manual None db = Inr (db, n)"
  using assms(2,3) select_note_is_by_id [OF assms(1,3)] select_note_SomeD [OF assms(3)]
  by (simp add: resolve_def note_by_id_update)

theorem resolve_version_witness:
  "pk_ok [ex_row] \<and> uuid_in ex_pf ex_n1 = Some ex_n1
   \<and> select_note ex_n1 ex_u1 [ex_row] = Some ex_row
   \<and> timestamp_ok ex_pf 99 \<and> int32 (version ex_row + 1)
   \<and> (\<exists>db'. resolve ex_pf ex_u1 99 ex_n1 Server None [ex_row]
                = Inr (db', ex_row\<lparr>version := 4, updatedAt := 99\<rparr>)
          \<and> note_by_id ex_n1 db' = Some (ex_row\<lparr>version := 4, updatedAt := 99\<rparr>))
   \<and> (\<exists>db'. resolve ex_pf ex_u1 99 ex_n1 Manual
                  (Some \<lparr>manualTitle = ''mt'', manualContent = ''mc''\<rparr>) [ex_row]
                = Inr (db', ex_row\<lparr>title := ''mt'', content := ''mc'', version := 4,
                                    updatedAt := 99\<rparr>)
          \<and> note_by_id ex_n1 db'
              = Some (ex_row\<lparr>title := ''mt'', content := ''mc'', version := 4,
                              updatedAt := 99\<rparr>))
   \<and> resolve ex_pf ex_u1 99 ex_n1 Client None [ex_row] = Inr ([ex_row], ex_row)
   \<and> resolve ex_pf ex_u1 99 ex_n1 Manual None [ex_row] = Inr ([ex_row], ex_row)
   \<and> select_note ex_n1 ex_u1 [ex_row\<lparr>version := 2147483647\<rparr>]
       = Some (ex_row\<lparr>version := 2147483647\<rparr>)
   \<and> \<not> int32 (version (ex_row\<lparr>version := 2147483647\<rparr>) + 1)
   \<and> resolve ex_pf ex_u1 99 ex_n1 Server None [ex_row\<lparr>version := 2147483647\<rparr>]
       = Inl InternalError
   \<and> resolve ex_pf ex_u1 99 ex_n1 Manual
         (Some \<lparr>manualTitle = ''mt'', manualContent = ''mc''\<rparr>)
         [ex_row\<lparr>version := 2147483647\<rparr>]
       = Inl InternalError"
proof -
  have pk: "pk_ok [ex_row]"
    by (simp add: pk_ok_def)
  have u: "uuid_in ex_pf ex_n1 = Some ex_n1"
    by (simp add: ex_facts)
  have sel: "select_note ex_n1 ex_u1 [ex_row] = Some ex_row"
    by (simp add: select_note_def ex_row_def)
  have ts: "timestamp_ok ex_pf 99"
    by (simp add: ex_facts)
  have r: "int32 (version ex_row + 1)"
    by (simp add: int32_def ex_row_def)
  have v: "version ex_row + 1 = 4"
    by (simp add: ex_row_def)
  have pk': "pk_ok [ex_row\<lparr>version := 2147483647\<rparr>]"
    by (simp add: pk_ok_def)
  have sel': "select_note ex_n1 ex_u1 [ex_row\<lparr>version := 2147483647\<rparr>]
       = Some (ex_row\<lparr>version := 2147483647\<rparr>)"
    by (simp add: select_note_def ex_row_def)
  have r': "\<not> int32 (version (ex_row\<lparr>version := 2147483647\<rparr>) + 1)"
    by (simp add: int32_def)
  note a = resolve_version
      [OF pk u sel, of 99 None "\<lparr>manualTitle = ''mt'', manualContent = ''mc''\<rparr>"]
  note b = resolve_version
      [OF pk' u sel', of 99 None "\<lparr>manualTitle = ''mt'', manualContent = ''mc''\<rparr>"]
  from a ts r
  have a1: "\<exists>db'. resolve ex_pf ex_u1 99 ex_n1 Server None [ex_row]
                = Inr (db', ex_row\<lparr>version := 4, updatedAt := 99\<rparr>)
          \<and> note_by_id ex_n1 db' = Some (ex_row\<lparr>version := 4, updatedAt := 99\<rparr>)"
    by (simp add: v)
  from a ts r
  have a2: "\<exists>db'. resolve ex_pf ex_u1 99 ex_n1 Manual
                  (Some \<lparr>manualTitle = ''mt'', manualContent = ''mc''\<rparr>) [ex_row]
                = Inr (db', ex_row\<lparr>title := ''mt'', content := ''mc'', version := 4,
                                    updatedAt := 99\<rparr>)
          \<and> note_by_id ex_n1 db'
              = Some (ex_row\<lparr>title := ''mt'', content := ''mc'', version := 4,
                              updatedAt := 99\<rparr>)"
    by (simp add: v ex_facts)
  from a have a3: "resolve ex_pf ex_u1 99 ex_n1 Client None [ex_row] = Inr ([ex_row], ex_row)"
    by simp
  from a have a4: "resolve ex_pf ex_u1 99 ex_n1 Manual None [ex_row] = Inr ([ex_row], ex_row)"
    by simp
  from b r'
  have b1: "resolve ex_pf ex_u1 99 ex_n1 Server None [ex_row\<lparr>version := 2147483647\<rparr>]
       = Inl InternalError"
    by simp
  from b r'
  have b2: "resolve ex_pf ex_u1 99 ex_n1 Manual
         (Some \<lparr>manualTitle = ''mt'', manualContent = ''mc''\<rparr>)
         [ex_row\<lparr>version := 2147483647\<rparr>]
       = Inl InternalError"
    by simp
  from pk u sel ts r a1 a2 a3 a4 sel' r' b1 b2 show ?thesis
    by (intro conjI)
qed


section \<open>Two writes of one note in either order\<close>










text \<open>
  When the batch creates the note, \<open>createdAt\<close> differs as well: it is the \<open>updatedAt\<close> of
  the write that arrives first.
\<close>

lemma order_dependent_createdAt_example:
  "fst (sync ex_pf ex_u1 ex_clock
          \<lparr>clientId = ''c1'', lastSyncAt = None, changes = [ex_write_a, ex_write_b]\<rparr> [])
     = [\<lparr>note_id = ex_n1, title = ''b'', content = ''q'', updatedAt = 70, deleted = False,
         version = 2, createdAt = 60, userId = ex_u1\<rparr>]
   \<and> fst (sync ex_pf ex_u1 ex_clock
          \<lparr>clientId = ''c1'', lastSyncAt = None, changes = [ex_write_b, ex_write_a]\<rparr> [])
     = [\<lparr>note_id = ex_n1, title = ''b'', content = ''q'', updatedAt = 70, deleted = False,
         version = 1, createdAt = 70, userId = ex_u1\<rparr>]"
  by (simp add: sync_def select_note_def insert_note_def update_notes_def integer_in_def
        plus_one_def int32_def ex_write_a_def ex_write_b_def ex_clock_def ex_facts)

text \<open>
  When the stored note ties with \<open>a\<close> on \<open>updatedAt\<close> and \<open>a\<close> has the higher version, \<open>a\<close>
  is applied with the server's clock as \<open>updatedAt\<close>; a later \<open>b\<close> that is older than the
  server's clock is then a conflict, so the order \<open>a, b\<close> keeps the content of \<open>a\<close> and the
  order \<open>b, a\<close> that of \<open>b\<close>.
\<close>

lemma order_dependent_tie_example:
  "fst (sync ex_pf ex_u1 ex_clock
          \<lparr>clientId = ''c1'', lastSyncAt = None, changes = [ex_write_a, ex_write_b]\<rparr>
          [ex_row\<lparr>updatedAt := 60, version := 0\<rparr>])
     = [ex_row\<lparr>title := ''a'', content := ''p'', deleted := False, version := 2,
                updatedAt := 99\<rparr>]
   \<and> fst (sync ex_pf ex_u1 ex_clock
          \<lparr>clientId = ''c1'', lastSyncAt = None, changes = [ex_write_b, ex_write_a]\<rparr>
          [ex_row\<lparr>updatedAt := 60, version := 0\<rparr>])
     = [ex_row\<lparr>title := ''b'', content := ''q'', deleted := False, version := 2,
                updatedAt := 70\<rparr>]"
  by (simp add: sync_def select_note_def update_notes_def integer_in_def plus_one_def
        int32_def ex_row_def ex_write_a_def ex_write_b_def ex_clock_def ex_facts)

text \<open>
  When the stored version is 2147483646, the order \<open>a, b\<close> applies \<open>a\<close> with the last
  version of the integer column; the update for \<open>b\<close> then raises and is swallowed, so the
  content of \<open>a\<close> stays. The order \<open>b, a\<close> applies \<open>b\<close> and reports \<open>a\<close> as a conflict.
\<close>

lemma order_dependent_overflow_example:
  "fst (sync ex_pf ex_u1 ex_clock
          \<lparr>clientId = ''c1'', lastSyncAt = None, changes = [ex_write_a, ex_write_b]\<rparr>
          [ex_row\<lparr>version := 2147483646\<rparr>])
     = [ex_row\<lparr>title := ''a'', content := ''p'', deleted := False, version := 2147483647,
                updatedAt := 60\<rparr>]
   \<and> fst (sync ex_pf ex_u1 ex_clock
          \<lparr>clientId = ''c1'', lastSyncAt = None, changes = [ex_write_b, ex_write_a]\<rparr>
          [ex_row\<lparr>version := 2147483646\<rparr>])
     = [ex_row\<lparr>title := ''b'', content := ''q'', deleted := False, version := 2147483647,
                updatedAt := 70\<rparr>]"
  by (simp add: sync_def select_note_def update_notes_def integer_in_def plus_one_def
        int32_def ex_row_def ex_write_a_def ex_write_b_def ex_clock_def ex_facts)

text \<open>
  A write whose version is not an integer cannot create the note but can update it, so the
  order decides here too: in the order \<open>a, b\<close> the fractional \<open>b\<close> is applied over \<open>a\<close>
  with version 1 + 1, in the order \<open>b, a\<close> its insert raises and \<open>a\<close> creates the note.
\<close>

lemma order_dependent_fraction_example:
  "fst (sync ex_pf ex_u1 ex_clock
          \<lparr>clientId = ''c1'', lastSyncAt = None,
           changes = [ex_write_a, ex_write_b\<lparr>version := 1 / 2\<rparr>]\<rparr> [])
     = [\<lparr>note_id = ex_n1, title = ''b'', content = ''q'', updatedAt = 70, deleted = False,
         version = 2, createdAt = 60, userId = ex_u1\<rparr>]
   \<and> fst (sync ex_pf ex_u1 ex_clock
          \<lparr>clientId = ''c1'', lastSyncAt = None,
           changes = [ex_write_b\<lparr>version := 1 / 2\<rparr>, ex_write_a]\<rparr> [])
     = [\<lparr>note_id = ex_n1, title = ''a'', content = ''p'', updatedAt = 60, deleted = False,
         version = 1, createdAt = 60, userId = ex_u1\<rparr>]"
proof -
  have half: "\<lfloor>1 / 2 :: rat\<rfloor> = 0"
    by (simp add: floor_eq_iff)
  show ?thesis
    by (simp add: sync_def select_note_def insert_note_def update_notes_def integer_in_def
          plus_one_def int32_def half ex_write_a_def ex_write_b_def ex_clock_def ex_facts)
qed



section \<open>The queue after a sync round\<close>

text \<open>
  What \<open>syncNow\<close> does to the queue when the transport returns a response: the queue is
  kept whole when \<open>applied\<close> is empty and emptied otherwise.
\<close>

lemma syncNow_queue:
  assumes "api \<lparr>clientId = (case metaClientId st of None \<Rightarrow> uuid | Some c \<Rightarrow> c),
                lastSyncAt = metaLastSyncAt st,
                changes = map change_of (syncQueue st)\<rparr> = Inr response"
  shows "syncQueue (syncNow api uuid False True st)
           = (if applied response = [] then syncQueue st else [])"
  using assms by (simp add: syncNow_def Let_def clearSyncQueue_def)

text \<open>
  C2 on the code. The replica's queue holds an item for the new note \<open>ex_n3\<close> and an item
  for \<open>ex_n1\<close> whose snapshot is older than the stored note. The server applies \<open>ex_n3\<close> and
  reports \<open>ex_n1\<close> as a conflict, so \<open>applied\<close> is \<open>[ex_n3]\<close>. After the round the queue is
  empty: the item of \<open>ex_n1\<close>, whose id is not in \<open>applied\<close>, is removed too.
\<close>

theorem queue_cleared_beyond_applied:
  "ex_api \<lparr>clientId = ''c1'', lastSyncAt = None,
           changes = map change_of (syncQueue ex_client)\<rparr>
     = Inr \<lparr>applied = [ex_n3],
            conflicts = [\<lparr>conflict_id = ex_n1, server = ex_row, client = ex_older\<rparr>],
            serverChanges = [], serverTime = 99\<rparr>
   \<and> syncQueue ex_client = [ex_item_fresh, ex_item_older]
   \<and> noteId ex_item_older = ex_n1
   \<and> ex_n1 \<notin> set [ex_n3]
   \<and> syncQueue (syncNow ex_api ''fresh-uuid'' False True ex_client) = []"
  by (simp add: syncNow_def Let_def clearSyncQueue_def change_of_def sync_def select_note_def
        insert_note_def integer_in_def int32_def ex_row_def ex_older_def ex_item_fresh_def
        ex_item_older_def ex_client_def ex_clock_def ex_api_def ex_facts)


end
